theory Spec2Isabelle
  imports Complex_Main
begin

section \<open>The BlackHole component: data\<close>

text \<open>
  The model follows the \<^verbatim>\<open>BlackHole\<close> component. JavaScript numbers and the
  \<^verbatim>\<open>Float32Array\<close> buffers are idealised as real numbers, so every statement below is
  about exact arithmetic: rounding, infinities and NaN are outside the model.
  \<^verbatim>\<open>Math.random\<close> is a stream \<open>rnd :: nat \<Rightarrow> real\<close> of draws together with the
  number of draws made so far (the field \<open>rand_ix\<close>); its contract is that every draw lies
  in \<open>[0, 1)\<close>.
\<close>

record props =
  size_bh :: real
  accretionDiskSize :: real
  gravitationalStrength :: real

definition default_props :: props where
  "default_props = \<lparr>size_bh = 3, accretionDiskSize = 8, gravitationalStrength = 0.5\<rparr>"

type_synonym random = "nat \<Rightarrow> real"

definition random_ok :: "random \<Rightarrow> bool" where
  "random_ok rnd \<longleftrightarrow> (\<forall>k. 0 \<le> rnd k \<and> rnd k < 1)"

record star_data =
  positions :: "real list"
  velocities :: "real list"
  sizes :: "real list"
  colors :: "real list"
  lifetimes :: "real list"
  count :: nat
  rand_ix :: nat

subsection \<open>Initial spawn of the stars\<close>

text \<open>The body of the loop that fills \<^verbatim>\<open>starData\<close>; six draws per star.\<close>

definition spawn_star :: "props \<Rightarrow> random \<Rightarrow> nat \<Rightarrow> star_data \<Rightarrow> star_data" where
  "spawn_star cfg rnd i s =
    (let i3 = i * 3;
         k = rand_ix s;
         theta = rnd k * pi * 2;
         phi = arccos (rnd (k + 1) * 2 - 1);
         radius = accretionDiskSize cfg * 2 + rnd (k + 2) * accretionDiskSize cfg;
         colorChoice = rnd (k + 4)
     in s\<lparr>positions := (positions s)
             [i3 := radius * sin phi * cos theta,
              i3 + 1 := radius * sin phi * sin theta,
              i3 + 2 := radius * cos phi],
           velocities := (velocities s)[i3 := 0, i3 + 1 := 0, i3 + 2 := 0],
           sizes := (sizes s)[i := 0.2 + rnd (k + 3) * 0.3],
           colors := (if colorChoice < 0.5
                      then (colors s)[i3 := 1, i3 + 1 := 1, i3 + 2 := 1]
                      else (colors s)[i3 := 1, i3 + 1 := 0.9, i3 + 2 := 0.6]),
           lifetimes := (lifetimes s)[i := rnd (k + 5) * 100],
           rand_ix := k + 6\<rparr>)"

definition starData :: "props \<Rightarrow> random \<Rightarrow> nat \<Rightarrow> star_data" where
  "starData cfg rnd k0 =
    fold (spawn_star cfg rnd) [0..<500]
      \<lparr>positions = replicate (500 * 3) 0,
       velocities = replicate (500 * 3) 0,
       sizes = replicate 500 0,
       colors = replicate (500 * 3) 0,
       lifetimes = replicate 500 0,
       count = 500,
       rand_ix = k0\<rparr>"

subsection \<open>The per-frame star update\<close>

definition distanceToCenter :: "star_data \<Rightarrow> nat \<Rightarrow> real" where
  "distanceToCenter s i =
    (let i3 = i * 3;
         x = positions s ! i3;
         y = positions s ! (i3 + 1);
         z = positions s ! (i3 + 2)
     in sqrt (x * x + y * y + z * z))"

definition forceMagnitude :: "props \<Rightarrow> star_data \<Rightarrow> nat \<Rightarrow> real" where
  "forceMagnitude cfg s i =
    (gravitationalStrength cfg * 0.5) / (distanceToCenter s i * distanceToCenter s i)"

definition dirX :: "star_data \<Rightarrow> nat \<Rightarrow> real" where
  "dirX s i = - (positions s ! (i * 3)) / distanceToCenter s i"

definition dirY :: "star_data \<Rightarrow> nat \<Rightarrow> real" where
  "dirY s i = - (positions s ! (i * 3 + 1)) / distanceToCenter s i"

definition dirZ :: "star_data \<Rightarrow> nat \<Rightarrow> real" where
  "dirZ s i = - (positions s ! (i * 3 + 2)) / distanceToCenter s i"

definition orbitalSpeed :: "props \<Rightarrow> star_data \<Rightarrow> nat \<Rightarrow> real" where
  "orbitalSpeed cfg s i = sqrt (forceMagnitude cfg s i / distanceToCenter s i) * 2"

text \<open>The respawn branch: four draws.\<close>

definition respawn_star :: "props \<Rightarrow> random \<Rightarrow> nat \<Rightarrow> star_data \<Rightarrow> star_data" where
  "respawn_star cfg rnd i s =
    (let i3 = i * 3;
         k = rand_ix s;
         theta = rnd k * pi * 2;
         phi = arccos (rnd (k + 1) * 2 - 1);
         radius = accretionDiskSize cfg * 2 + rnd (k + 2) * accretionDiskSize cfg
     in s\<lparr>positions := (positions s)
             [i3 := radius * sin phi * cos theta,
              i3 + 1 := radius * sin phi * sin theta,
              i3 + 2 := radius * cos phi],
           velocities := (velocities s)[i3 := 0, i3 + 1 := 0, i3 + 2 := 0],
           sizes := (sizes s)[i := 0.2 + rnd (k + 3) * 0.3],
           lifetimes := (lifetimes s)[i := 0],
           rand_ix := k + 4\<rparr>)"

text \<open>
  The other branch, statement group by statement group. The locals
  \<^verbatim>\<open>forceMagnitude\<close>, \<^verbatim>\<open>dirX\<close>, \<^verbatim>\<open>dirY\<close>, \<^verbatim>\<open>dirZ\<close>, \<^verbatim>\<open>orbitalSpeed\<close> and
  \<^verbatim>\<open>normalizedDist\<close> are computed from the position read at the top of the loop body,
  so each group receives them as arguments.
\<close>

definition apply_gravity :: "real \<Rightarrow> real \<Rightarrow> real \<Rightarrow> real \<Rightarrow> nat \<Rightarrow> star_data \<Rightarrow> star_data" where
  "apply_gravity dx dy dz force i s =
    (let i3 = i * 3; v = velocities s
     in s\<lparr>velocities := v
             [i3 := v ! i3 + dx * force * 0.1,
              i3 + 1 := v ! (i3 + 1) + dy * force * 0.1,
              i3 + 2 := v ! (i3 + 2) + dz * force * 0.1]\<rparr>)"

definition add_orbital :: "real \<Rightarrow> real \<Rightarrow> real \<Rightarrow> nat \<Rightarrow> star_data \<Rightarrow> star_data" where
  "add_orbital dx dz speed i s =
    (let i3 = i * 3; v = velocities s
     in s\<lparr>velocities := v
             [i3 := v ! i3 + - dz * speed * 0.5,
              i3 + 2 := v ! (i3 + 2) + dx * speed * 0.5]\<rparr>)"

definition apply_damping :: "nat \<Rightarrow> star_data \<Rightarrow> star_data" where
  "apply_damping i s =
    (let i3 = i * 3; v = velocities s
     in s\<lparr>velocities := v
             [i3 := v ! i3 * 0.99,
              i3 + 1 := v ! (i3 + 1) * 0.99,
              i3 + 2 := v ! (i3 + 2) * 0.99]\<rparr>)"

definition update_positions :: "nat \<Rightarrow> star_data \<Rightarrow> star_data" where
  "update_positions i s =
    (let i3 = i * 3; p = positions s; v = velocities s
     in s\<lparr>positions := p
             [i3 := p ! i3 + v ! i3,
              i3 + 1 := p ! (i3 + 1) + v ! (i3 + 1),
              i3 + 2 := p ! (i3 + 2) + v ! (i3 + 2)]\<rparr>)"

definition star_size :: "props \<Rightarrow> real \<Rightarrow> real \<Rightarrow> real" where
  "star_size cfg u d =
    (let normalizedDist = d / (accretionDiskSize cfg * 3)
     in (0.2 + u * 0.1) * max 0.1 normalizedDist)"

definition shrink_star :: "props \<Rightarrow> random \<Rightarrow> real \<Rightarrow> nat \<Rightarrow> star_data \<Rightarrow> star_data" where
  "shrink_star cfg rnd d i s =
    s\<lparr>sizes := (sizes s)[i := star_size cfg (rnd (rand_ix s)) d],
      rand_ix := rand_ix s + 1\<rparr>"

definition age_star :: "nat \<Rightarrow> star_data \<Rightarrow> star_data" where
  "age_star i s = s\<lparr>lifetimes := (lifetimes s)[i := lifetimes s ! i + 1]\<rparr>"

text \<open>
  The three velocity groups of the branch (gravitational acceleration, orbital component,
  damping). They leave the position alone, so iterating \<open>accelerate\<close> is the update of a
  star that is held in place.
\<close>

definition accelerate :: "props \<Rightarrow> nat \<Rightarrow> star_data \<Rightarrow> star_data" where
  "accelerate cfg i s =
    (let force = forceMagnitude cfg s i;
         dx = dirX s i; dy = dirY s i; dz = dirZ s i;
         speed = orbitalSpeed cfg s i
     in apply_damping i (add_orbital dx dz speed i (apply_gravity dx dy dz force i s)))"

definition pull_star :: "props \<Rightarrow> random \<Rightarrow> nat \<Rightarrow> star_data \<Rightarrow> star_data" where
  "pull_star cfg rnd i s =
    age_star i
      (shrink_star cfg rnd (distanceToCenter s i) i
        (update_positions i (accelerate cfg i s)))"

text \<open>The loop body, and the loop over all stars, of the star part of \<^verbatim>\<open>useFrame\<close>.\<close>

definition reached_horizon :: "props \<Rightarrow> star_data \<Rightarrow> nat \<Rightarrow> bool" where
  "reached_horizon cfg s i \<longleftrightarrow> distanceToCenter s i < size_bh cfg * 1.5"

definition update_star :: "props \<Rightarrow> random \<Rightarrow> nat \<Rightarrow> star_data \<Rightarrow> star_data" where
  "update_star cfg rnd i s =
    (if reached_horizon cfg s i then respawn_star cfg rnd i s else pull_star cfg rnd i s)"

definition animate_stars :: "props \<Rightarrow> random \<Rightarrow> star_data \<Rightarrow> star_data" where
  "animate_stars cfg rnd s = fold (update_star cfg rnd) [0..<count s] s"

text \<open>The buffers have the lengths they were allocated with.\<close>

definition buffers_ok :: "star_data \<Rightarrow> bool" where
  "buffers_ok s \<longleftrightarrow>
     length (positions s) = count s * 3 \<and> length (velocities s) = count s * 3 \<and>
     length (sizes s) = count s \<and> length (colors s) = count s * 3 \<and>
     length (lifetimes s) = count s"

definition star_at :: "star_data \<Rightarrow> nat \<Rightarrow> real list" where
  "star_at s i =
    [positions s ! (i * 3), positions s ! (i * 3 + 1), positions s ! (i * 3 + 2),
     velocities s ! (i * 3), velocities s ! (i * 3 + 1), velocities s ! (i * 3 + 2),
     sizes s ! i, lifetimes s ! i]"

definition velocity_magnitude :: "star_data \<Rightarrow> nat \<Rightarrow> real" where
  "velocity_magnitude s i =
    (let vx = velocities s ! (i * 3);
         vy = velocities s ! (i * 3 + 1);
         vz = velocities s ! (i * 3 + 2)
     in sqrt (vx * vx + vy * vy + vz * vz))"

subsection \<open>The accretion disk\<close>

record disk_data =
  disk_positions :: "real list"
  disk_colors :: "real list"
  disk_sizes :: "real list"
  disk_count :: nat
  disk_rand_ix :: nat

text \<open>The body of the loop that fills \<^verbatim>\<open>particleData\<close>; four draws per particle.\<close>

definition spawn_particle :: "props \<Rightarrow> random \<Rightarrow> nat \<Rightarrow> disk_data \<Rightarrow> disk_data" where
  "spawn_particle cfg rnd i s =
    (let i3 = i * 3;
         k = disk_rand_ix s;
         angle = rnd k * pi * 2;
         radius = size_bh cfg * 1.5 + rnd (k + 1) * accretionDiskSize cfg;
         t = (radius - size_bh cfg * 1.5) / accretionDiskSize cfg
     in s\<lparr>disk_positions := (disk_positions s)
             [i3 := cos angle * radius,
              i3 + 1 := (rnd (k + 2) - 0.5) * 0.5,
              i3 + 2 := sin angle * radius],
           disk_colors :=
             (if t < 0.3 then (disk_colors s)[i3 := 1, i3 + 1 := 0.8, i3 + 2 := 0.3]
              else if t < 0.6 then (disk_colors s)[i3 := 1, i3 + 1 := 0.4, i3 + 2 := 0.1]
              else (disk_colors s)[i3 := 0.8, i3 + 1 := 0.2, i3 + 2 := 0.5]),
           disk_sizes := (disk_sizes s)[i := 0.05 + rnd (k + 3) * 0.15],
           disk_rand_ix := k + 4\<rparr>)"

definition particleData :: "props \<Rightarrow> random \<Rightarrow> nat \<Rightarrow> disk_data" where
  "particleData cfg rnd k0 =
    fold (spawn_particle cfg rnd) [0..<2000]
      \<lparr>disk_positions = replicate (2000 * 3) 0,
       disk_colors = replicate (2000 * 3) 0,
       disk_sizes = replicate 2000 0,
       disk_count = 2000,
       disk_rand_ix = k0\<rparr>"

text \<open>
  \<^verbatim>\<open>Math.atan2\<close> on real numbers, by the quadrant of the point \<open>(x, y)\<close>; the IEEE cases
  for signed zeros, infinities and NaN have no counterpart here.
\<close>

definition atan2 :: "real \<Rightarrow> real \<Rightarrow> real" where
  "atan2 y x =
    (if 0 < x then arctan (y / x)
     else if x < 0 then (if 0 \<le> y then arctan (y / x) + pi else arctan (y / x) - pi)
     else if 0 < y then pi / 2
     else if y < 0 then - (pi / 2)
     else 0)"

definition disk_radius :: "real list \<Rightarrow> nat \<Rightarrow> real" where
  "disk_radius p i = (let x = p ! (i * 3); z = p ! (i * 3 + 2) in sqrt (x * x + z * z))"

definition disk_angle :: "real list \<Rightarrow> nat \<Rightarrow> real" where
  "disk_angle p i = atan2 (p ! (i * 3 + 2)) (p ! (i * 3))"

definition orbit_particle :: "nat \<Rightarrow> real list \<Rightarrow> real list" where
  "orbit_particle i p =
    (let i3 = i * 3;
         angle = disk_angle p i;
         radius = disk_radius p i;
         speed = 0.5 / (radius * 0.1);
         newAngle = angle + speed * 0.01
     in p[i3 := cos newAngle * radius, i3 + 2 := sin newAngle * radius])"

definition animate_disk :: "disk_data \<Rightarrow> disk_data" where
  "animate_disk s =
    s\<lparr>disk_positions := fold orbit_particle [0..<disk_count s] (disk_positions s)\<rparr>"

definition disk_at :: "real list \<Rightarrow> nat \<Rightarrow> real list" where
  "disk_at p i = [p ! (i * 3), p ! (i * 3 + 1), p ! (i * 3 + 2)]"

subsection \<open>Auxiliary notions for the statements\<close>

text \<open>
  The point that both the initial spawn and the respawn compute from three draws
  \<open>u\<close> (azimuth), \<open>v\<close> (polar angle) and \<open>w\<close> (radius).
\<close>

definition shell_point :: "props \<Rightarrow> real \<Rightarrow> real \<Rightarrow> real \<Rightarrow> real list" where
  "shell_point cfg u v w =
    (let theta = u * pi * 2;
         phi = arccos (v * 2 - 1);
         radius = accretionDiskSize cfg * 2 + w * accretionDiskSize cfg
     in [radius * sin phi * cos theta, radius * sin phi * sin theta, radius * cos phi])"

text \<open>
  A bound on the speed of a star held outside the horizon: 99 times the largest
  per-step velocity increment, which is reached at the horizon itself.
\<close>

definition held_speed_bound :: "props \<Rightarrow> real" where
  "held_speed_bound cfg =
    (let horizon = size_bh cfg * 1.5;
         force = gravitationalStrength cfg * 0.5 / (horizon * horizon)
     in 99 * (force * 0.1 + sqrt (force / horizon)))"

text \<open>
  The number of draws made in a frame when the turn of star \<open>i\<close> comes: a star before it
  that is respawned takes four draws, any other takes one.
\<close>

definition draws_before :: "props \<Rightarrow> star_data \<Rightarrow> nat \<Rightarrow> nat" where
  "draws_before cfg s i =
    rand_ix s + (\<Sum>j<i. if reached_horizon cfg s j then 4 else 1)"

text \<open>Concrete configurations and random streams used to instantiate the theorems.\<close>

definition steady_draws :: random where
  "steady_draws k = 1 / 2"

definition wide_props :: props where
  "wide_props = \<lparr>size_bh = 20, accretionDiskSize = 8, gravitationalStrength = 0.5\<rparr>"

definition touching_props :: props where
  "touching_props = \<lparr>size_bh = 4, accretionDiskSize = 3, gravitationalStrength = 0.5\<rparr>"

definition pole_draws :: random where
  "pole_draws k = (if k mod 6 = 0 then 1 / 4 else if k mod 6 = 2 then 0 else 1 / 2)"

definition flicker_draws :: random where
  "flicker_draws k = (if k < 3000 then 1 / 2 else if k = 3000 then 0 else 9 / 10)"

section \<open>Frame properties of the star update\<close>

lemmas pull_defs = pull_star_def accelerate_def age_star_def shrink_star_def
  update_positions_def apply_damping_def add_orbital_def apply_gravity_def

lemmas local_defs = forceMagnitude_def dirX_def dirY_def dirZ_def orbitalSpeed_def
  distanceToCenter_def

lemma update_star_colors: "colors (update_star cfg rnd i s) = colors s"
  by (simp add: update_star_def respawn_star_def pull_defs Let_def)

lemma update_star_count: "count (update_star cfg rnd i s) = count s"
  by (simp add: update_star_def respawn_star_def pull_defs Let_def)

lemma update_star_lengths:
  "length (positions (update_star cfg rnd i s)) = length (positions s)"
  "length (velocities (update_star cfg rnd i s)) = length (velocities s)"
  "length (sizes (update_star cfg rnd i s)) = length (sizes s)"
  "length (lifetimes (update_star cfg rnd i s)) = length (lifetimes s)"
  by (simp_all add: update_star_def respawn_star_def pull_defs Let_def)

lemma fold_update_star_frame:
  "colors (fold (update_star cfg rnd) js s) = colors s \<and>
   count (fold (update_star cfg rnd) js s) = count s \<and>
   length (positions (fold (update_star cfg rnd) js s)) = length (positions s) \<and>
   length (velocities (fold (update_star cfg rnd) js s)) = length (velocities s) \<and>
   length (sizes (fold (update_star cfg rnd) js s)) = length (sizes s) \<and>
   length (lifetimes (fold (update_star cfg rnd) js s)) = length (lifetimes s)"
  by (induction js arbitrary: s)
     (simp_all add: update_star_colors update_star_count update_star_lengths)

lemma animate_stars_frame:
  "colors (animate_stars cfg rnd s) = colors s \<and>
   count (animate_stars cfg rnd s) = count s \<and>
   length (positions (animate_stars cfg rnd s)) = length (positions s) \<and>
   length (velocities (animate_stars cfg rnd s)) = length (velocities s) \<and>
   length (sizes (animate_stars cfg rnd s)) = length (sizes s) \<and>
   length (lifetimes (animate_stars cfg rnd s)) = length (lifetimes s)"
  unfolding animate_stars_def by (rule fold_update_star_frame)

lemma buffers_ok_fold:
  "buffers_ok s \<Longrightarrow> buffers_ok (fold (update_star cfg rnd) js s)"
  using fold_update_star_frame[of cfg rnd js s] by (simp add: buffers_ok_def)

lemma buffers_ok_animate_stars:
  "buffers_ok s \<Longrightarrow> buffers_ok (animate_stars cfg rnd s)"
  unfolding animate_stars_def by (rule buffers_ok_fold)

lemma update_star_other:
  "j \<noteq> i \<Longrightarrow> star_at (update_star cfg rnd j s) i = star_at s i"
  by (simp add: star_at_def update_star_def respawn_star_def pull_defs Let_def)

lemma fold_update_star_other:
  "i \<notin> set js \<Longrightarrow> star_at (fold (update_star cfg rnd) js s) i = star_at s i"
  by (induction js arbitrary: s) (auto simp: update_star_other)

lemma distance_star_at:
  "star_at t i = star_at s i \<Longrightarrow> distanceToCenter t i = distanceToCenter s i"
  by (simp add: star_at_def distanceToCenter_def)

lemma update_star_local:
  assumes "star_at t i = star_at s i" "buffers_ok s" "buffers_ok t" "i < count s" "i < count t"
  shows "star_at (update_star cfg rnd i t) i =
         star_at (update_star cfg rnd i (s\<lparr>rand_ix := rand_ix t\<rparr>)) i"
  using assms
  by (simp add: star_at_def update_star_def respawn_star_def pull_defs local_defs
      reached_horizon_def buffers_ok_def Let_def)

text \<open>
  Within one frame a star is written by its own loop iteration only; the iterations before
  it decide nothing but how many random draws have been made when its turn comes.
\<close>

lemma animate_stars_at_ix:
  assumes "buffers_ok s" "i < count s"
  shows "star_at (animate_stars cfg rnd s) i =
         star_at (update_star cfg rnd i
           (s\<lparr>rand_ix := rand_ix (fold (update_star cfg rnd) [0..<i] s)\<rparr>)) i"
proof -
  let ?f = "update_star cfg rnd"
  let ?t = "fold ?f [0..<i] s"
  have split: "[0..<count s] = [0..<i] @ i # [Suc i..<count s]"
    using assms(2) upt_add_eq_append[of 0 i "count s - i"] by (simp add: upt_conv_Cons)
  have "animate_stars cfg rnd s = fold ?f [Suc i..<count s] (?f i ?t)"
    by (simp add: animate_stars_def split)
  then have "star_at (animate_stars cfg rnd s) i = star_at (?f i ?t) i"
    by (simp add: fold_update_star_other)
  moreover have "star_at ?t i = star_at s i" by (simp add: fold_update_star_other)
  moreover have "buffers_ok ?t" using assms(1) by (rule buffers_ok_fold)
  moreover have "count ?t = count s" using fold_update_star_frame[of cfg rnd "[0..<i]" s] by simp
  ultimately show ?thesis
    using update_star_local[of ?t i s cfg rnd] assms by simp
qed

lemma animate_stars_at:
  assumes "buffers_ok s" "i < count s"
  shows "\<exists>k. star_at (animate_stars cfg rnd s) i =
             star_at (update_star cfg rnd i (s\<lparr>rand_ix := k\<rparr>)) i"
  using animate_stars_at_ix[OF assms] by blast

lemma funpow_animate_stars_frame:
  "colors ((animate_stars cfg rnd ^^ n) s) = colors s \<and>
   count ((animate_stars cfg rnd ^^ n) s) = count s \<and>
   length (positions ((animate_stars cfg rnd ^^ n) s)) = length (positions s) \<and>
   length (velocities ((animate_stars cfg rnd ^^ n) s)) = length (velocities s) \<and>
   length (sizes ((animate_stars cfg rnd ^^ n) s)) = length (sizes s) \<and>
   length (lifetimes ((animate_stars cfg rnd ^^ n) s)) = length (lifetimes s)"
  by (induction n) (simp_all add: animate_stars_frame)

lemma direction_unit:
  assumes "0 < distanceToCenter s i"
  shows "(dirX s i)\<^sup>2 + (dirY s i)\<^sup>2 + (dirZ s i)\<^sup>2 = 1"
proof -
  let ?d = "distanceToCenter s i"
  have sq: "?d\<^sup>2 = (positions s ! (i * 3))\<^sup>2 + (positions s ! (i * 3 + 1))\<^sup>2 +
      (positions s ! (i * 3 + 2))\<^sup>2"
    by (simp add: distanceToCenter_def Let_def power2_eq_square)
  have "(dirX s i)\<^sup>2 + (dirY s i)\<^sup>2 + (dirZ s i)\<^sup>2 =
    ((positions s ! (i * 3))\<^sup>2 + (positions s ! (i * 3 + 1))\<^sup>2 +
     (positions s ! (i * 3 + 2))\<^sup>2) / ?d\<^sup>2"
    by (simp add: dirX_def dirY_def dirZ_def power_divide add_divide_distrib)
  also have "\<dots> = ?d\<^sup>2 / ?d\<^sup>2" by (simp only: sq)
  also have "\<dots> = 1" using assms by simp
  finally show ?thesis .
qed

section \<open>Spawning on the shell\<close>

lemma shell_distance:
  "sqrt ((r * sin p * cos t) * (r * sin p * cos t) + (r * sin p * sin t) * (r * sin p * sin t)
       + (r * cos p) * (r * cos p)) = \<bar>r\<bar>"
proof -
  have "(r * sin p * cos t) * (r * sin p * cos t) + (r * sin p * sin t) * (r * sin p * sin t)
       + (r * cos p) * (r * cos p) = r\<^sup>2 * ((sin p)\<^sup>2 * ((cos t)\<^sup>2 + (sin t)\<^sup>2) + (cos p)\<^sup>2)"
    by algebra
  also have "\<dots> = r\<^sup>2" by simp
  finally show ?thesis by simp
qed

lemma spawn_star_frame:
  "count (spawn_star cfg rnd i s) = count s"
  "rand_ix (spawn_star cfg rnd i s) = rand_ix s + 6"
  "length (positions (spawn_star cfg rnd i s)) = length (positions s)"
  "length (velocities (spawn_star cfg rnd i s)) = length (velocities s)"
  "length (sizes (spawn_star cfg rnd i s)) = length (sizes s)"
  "length (colors (spawn_star cfg rnd i s)) = length (colors s)"
  "length (lifetimes (spawn_star cfg rnd i s)) = length (lifetimes s)"
  by (simp_all add: spawn_star_def Let_def)

lemma fold_spawn_star_frame:
  "count (fold (spawn_star cfg rnd) js s) = count s \<and>
   rand_ix (fold (spawn_star cfg rnd) js s) = rand_ix s + 6 * length js \<and>
   length (positions (fold (spawn_star cfg rnd) js s)) = length (positions s) \<and>
   length (velocities (fold (spawn_star cfg rnd) js s)) = length (velocities s) \<and>
   length (sizes (fold (spawn_star cfg rnd) js s)) = length (sizes s) \<and>
   length (colors (fold (spawn_star cfg rnd) js s)) = length (colors s) \<and>
   length (lifetimes (fold (spawn_star cfg rnd) js s)) = length (lifetimes s)"
  by (induction js arbitrary: s) (simp_all add: spawn_star_frame)

lemma spawn_star_other:
  "j \<noteq> i \<Longrightarrow> star_at (spawn_star cfg rnd j s) i = star_at s i"
  by (simp add: star_at_def spawn_star_def Let_def)

lemma fold_spawn_star_other:
  "i \<notin> set js \<Longrightarrow> star_at (fold (spawn_star cfg rnd) js s) i = star_at s i"
  by (induction js arbitrary: s) (auto simp: spawn_star_other)

lemma starData_count: "count (starData cfg rnd k0) = 500"
  unfolding starData_def using fold_spawn_star_frame[of cfg rnd "[0..<500]"] by simp

lemma starData_buffers_ok: "buffers_ok (starData cfg rnd k0)"
  unfolding starData_def buffers_ok_def using fold_spawn_star_frame[of cfg rnd "[0..<500]"] by simp

lemma fold_spawn_star_at:
  assumes "i < n" "n * 3 \<le> length (positions s)" "n * 3 \<le> length (velocities s)"
    "n \<le> length (sizes s)" "n \<le> length (lifetimes s)"
  shows "star_at (fold (spawn_star cfg rnd) [0..<n] s) i =
     shell_point cfg (rnd (rand_ix s + 6 * i)) (rnd (rand_ix s + 6 * i + 1))
       (rnd (rand_ix s + 6 * i + 2)) @
     [0, 0, 0, 0.2 + rnd (rand_ix s + 6 * i + 3) * 0.3, rnd (rand_ix s + 6 * i + 5) * 100]"
proof -
  let ?f = "spawn_star cfg rnd"
  let ?t = "fold ?f [0..<i] s"
  have split: "[0..<n] = [0..<i] @ i # [Suc i..<n]"
    using assms(1) upt_add_eq_append[of 0 i "n - i"] by (simp add: upt_conv_Cons)
  have "fold ?f [0..<n] s = fold ?f [Suc i..<n] (?f i ?t)"
    by (subst split) simp
  then have "star_at (fold ?f [0..<n] s) i = star_at (?f i ?t) i"
    by (simp add: fold_spawn_star_other)
  moreover have "rand_ix ?t = rand_ix s + 6 * i" "length (positions ?t) = length (positions s)"
    "length (velocities ?t) = length (velocities s)"
    "length (sizes ?t) = length (sizes s)" "length (lifetimes ?t) = length (lifetimes s)"
    using fold_spawn_star_frame[of cfg rnd "[0..<i]" s] by simp_all
  ultimately show ?thesis using assms
    by (simp add: star_at_def spawn_star_def shell_point_def Let_def)
qed

lemma starData_at:
  assumes "i < 500"
  shows "star_at (starData cfg rnd k0) i =
     shell_point cfg (rnd (k0 + 6 * i)) (rnd (k0 + 6 * i + 1)) (rnd (k0 + 6 * i + 2)) @
     [0, 0, 0, 0.2 + rnd (k0 + 6 * i + 3) * 0.3, rnd (k0 + 6 * i + 5) * 100]"
  unfolding starData_def using assms by (subst fold_spawn_star_at) simp_all


lemma shell_point_distance:
  assumes "star_at s i = shell_point cfg u v w @ rest"
  shows "distanceToCenter s i = \<bar>accretionDiskSize cfg * 2 + w * accretionDiskSize cfg\<bar>"
  using assms shell_distance[of "accretionDiskSize cfg * 2 + w * accretionDiskSize cfg" "arccos (v * 2 - 1)" "u * pi * 2"]
  by (simp add: star_at_def shell_point_def distanceToCenter_def Let_def)

lemma shell_radius_bounds:
  fixes a w :: real
  assumes "0 < a" "0 \<le> w" "w < 1"
  shows "a * 2 \<le> \<bar>a * 2 + w * a\<bar>" "\<bar>a * 2 + w * a\<bar> < a * 3"
proof -
  have "0 \<le> w * a" using assms by simp
  moreover have "w * a < a" using assms by simp
  ultimately show "a * 2 \<le> \<bar>a * 2 + w * a\<bar>" "\<bar>a * 2 + w * a\<bar> < a * 3" by linarith+
qed

lemma respawn_star_at:
  assumes "buffers_ok s" "i < count s"
  shows "star_at (respawn_star cfg rnd i s) i =
     shell_point cfg (rnd (rand_ix s)) (rnd (rand_ix s + 1)) (rnd (rand_ix s + 2)) @
     [0, 0, 0, 0.2 + rnd (rand_ix s + 3) * 0.3, 0]"
  using assms
  by (simp add: star_at_def respawn_star_def shell_point_def buffers_ok_def Let_def)

section \<open>Velocity of a star held in place\<close>

lemma norm3_triangle:
  fixes a b c x y z :: real
  shows "sqrt ((a + x)\<^sup>2 + (b + y)\<^sup>2 + (c + z)\<^sup>2) \<le>
         sqrt (a\<^sup>2 + b\<^sup>2 + c\<^sup>2) + sqrt (x\<^sup>2 + y\<^sup>2 + z\<^sup>2)"
proof -
  let ?p = "sqrt (a\<^sup>2 + b\<^sup>2)"
  let ?q = "sqrt (x\<^sup>2 + y\<^sup>2)"
  have 1: "sqrt ((a + x)\<^sup>2 + (b + y)\<^sup>2) \<le> ?p + ?q"
    by (rule real_sqrt_sum_squares_triangle_ineq)
  have "(a + x)\<^sup>2 + (b + y)\<^sup>2 = (sqrt ((a + x)\<^sup>2 + (b + y)\<^sup>2))\<^sup>2" by simp
  also have "\<dots> \<le> (?p + ?q)\<^sup>2"
    using 1 by (intro power_mono) simp_all
  finally have "sqrt ((a + x)\<^sup>2 + (b + y)\<^sup>2 + (c + z)\<^sup>2) \<le> sqrt ((?p + ?q)\<^sup>2 + (c + z)\<^sup>2)"
    by simp
  also have "\<dots> \<le> sqrt (?p\<^sup>2 + c\<^sup>2) + sqrt (?q\<^sup>2 + z\<^sup>2)"
    by (rule real_sqrt_sum_squares_triangle_ineq)
  finally show ?thesis by simp
qed


lemma norm3_scale:
  fixes a b c k :: real
  assumes "0 \<le> k"
  shows "sqrt ((a * k)\<^sup>2 + (b * k)\<^sup>2 + (c * k)\<^sup>2) = k * sqrt (a\<^sup>2 + b\<^sup>2 + c\<^sup>2)"
proof -
  have "(a * k)\<^sup>2 + (b * k)\<^sup>2 + (c * k)\<^sup>2 = k\<^sup>2 * (a\<^sup>2 + b\<^sup>2 + c\<^sup>2)"
    by algebra
  then show ?thesis using assms by (simp add: real_sqrt_mult)
qed

lemma accelerate_frame:
  "positions (accelerate cfg i s) = positions s"
  "count (accelerate cfg i s) = count s"
  "length (velocities (accelerate cfg i s)) = length (velocities s)"
  "sizes (accelerate cfg i s) = sizes s"
  "colors (accelerate cfg i s) = colors s"
  "lifetimes (accelerate cfg i s) = lifetimes s"
  by (simp_all add: accelerate_def apply_damping_def add_orbital_def apply_gravity_def Let_def)

lemma accelerate_velocity:
  assumes "buffers_ok s" "i < count s"
  shows "velocities (accelerate cfg i s) ! (i * 3) =
           (velocities s ! (i * 3) +
             (dirX s i * forceMagnitude cfg s i * 0.1 + - dirZ s i * orbitalSpeed cfg s i * 0.5)) * 0.99"
    and "velocities (accelerate cfg i s) ! (i * 3 + 1) =
           (velocities s ! (i * 3 + 1) + dirY s i * forceMagnitude cfg s i * 0.1) * 0.99"
    and "velocities (accelerate cfg i s) ! (i * 3 + 2) =
           (velocities s ! (i * 3 + 2) +
             (dirZ s i * forceMagnitude cfg s i * 0.1 + dirX s i * orbitalSpeed cfg s i * 0.5)) * 0.99"
  using assms
  by (simp_all add: accelerate_def apply_damping_def add_orbital_def apply_gravity_def
      buffers_ok_def Let_def)

lemma pull_norm:
  fixes dx dy dz f os :: real
  assumes unit: "dx\<^sup>2 + dy\<^sup>2 + dz\<^sup>2 = 1" and f: "0 \<le> f" and os: "0 \<le> os"
  shows "sqrt ((dx * f * 0.1 + - dz * os * 0.5)\<^sup>2 + (dy * f * 0.1)\<^sup>2 +
               (dz * f * 0.1 + dx * os * 0.5)\<^sup>2) \<le> f * 0.1 + os * 0.5"
proof -
  have "(dx * f * 0.1 + - dz * os * 0.5)\<^sup>2 + (dy * f * 0.1)\<^sup>2 + (dz * f * 0.1 + dx * os * 0.5)\<^sup>2
      = (f * 0.1)\<^sup>2 * (dx\<^sup>2 + dy\<^sup>2 + dz\<^sup>2) + (os * 0.5)\<^sup>2 * (dx\<^sup>2 + dz\<^sup>2)"
    by algebra
  also have "\<dots> = (f * 0.1)\<^sup>2 + (os * 0.5)\<^sup>2 * (dx\<^sup>2 + dz\<^sup>2)"
    by (simp only: unit mult_1_right)
  also have "\<dots> \<le> (f * 0.1)\<^sup>2 + (os * 0.5)\<^sup>2 * 1"
  proof -
    have "dx\<^sup>2 + dz\<^sup>2 \<le> 1" using unit zero_le_power2[of dy] by linarith
    then have "(os * 0.5)\<^sup>2 * (dx\<^sup>2 + dz\<^sup>2) \<le> (os * 0.5)\<^sup>2 * 1"
      by (intro mult_left_mono) simp_all
    then show ?thesis by simp
  qed
  also have "\<dots> \<le> (f * 0.1 + os * 0.5)\<^sup>2"
  proof -
    have "0 \<le> 2 * (f * 0.1) * (os * 0.5)" using f os by simp
    then show ?thesis by (simp add: power2_sum)
  qed
  finally show ?thesis
    using f os by (intro real_le_lsqrt) simp_all
qed

lemma accelerate_speed:
  assumes "buffers_ok s" "i < count s" "\<not> reached_horizon cfg s i"
    "0 < size_bh cfg" "0 \<le> gravitationalStrength cfg"
  shows "velocity_magnitude (accelerate cfg i s) i \<le>
         0.99 * (velocity_magnitude s i + held_speed_bound cfg / 99)"
proof -
  let ?d = "distanceToCenter s i"
  let ?h = "size_bh cfg * 1.5"
  let ?f = "forceMagnitude cfg s i"
  let ?os = "orbitalSpeed cfg s i"
  let ?fh = "gravitationalStrength cfg * 0.5 / (?h * ?h)"
  let ?vx = "velocities s ! (i * 3)"
  let ?vy = "velocities s ! (i * 3 + 1)"
  let ?vz = "velocities s ! (i * 3 + 2)"
  let ?ax = "dirX s i * ?f * 0.1 + - dirZ s i * ?os * 0.5"
  let ?ay = "dirY s i * ?f * 0.1"
  let ?az = "dirZ s i * ?f * 0.1 + dirX s i * ?os * 0.5"
  have h: "0 < ?h" using assms(4) by simp
  have d: "?h \<le> ?d" using assms(3) by (simp add: reached_horizon_def)
  have dpos: "0 < ?d" using h d by linarith
  have unit: "(dirX s i)\<^sup>2 + (dirY s i)\<^sup>2 + (dirZ s i)\<^sup>2 = 1"
    using dpos by (rule direction_unit)
  have f0: "0 \<le> ?f" using assms(5) by (simp add: forceMagnitude_def)
  have hh: "?h * ?h \<le> ?d * ?d" using h d by (intro mult_mono) simp_all
  have f_le: "?f \<le> ?fh"
    unfolding forceMagnitude_def using assms(5) h hh
    by (intro divide_left_mono mult_pos_pos) (simp_all add: dpos)
  have "?f / ?d \<le> ?fh / ?h"
    using f0 f_le h d by (intro frac_le) simp_all
  then have os_le: "?os * 0.5 \<le> sqrt (?fh / ?h)"
    by (simp add: orbitalSpeed_def)
  have os0: "0 \<le> ?os" using f0 dpos by (simp add: orbitalSpeed_def)
  have a: "sqrt (?ax\<^sup>2 + ?ay\<^sup>2 + ?az\<^sup>2) \<le> held_speed_bound cfg / 99"
  proof -
    have b: "held_speed_bound cfg / 99 = ?fh * 0.1 + sqrt (?fh / ?h)"
      by (simp add: held_speed_bound_def Let_def)
    have "sqrt (?ax\<^sup>2 + ?ay\<^sup>2 + ?az\<^sup>2) \<le> ?f * 0.1 + ?os * 0.5"
      by (rule pull_norm[OF unit f0 os0])
    also have "\<dots> \<le> ?fh * 0.1 + sqrt (?fh / ?h)" using f_le os_le by simp
    finally show ?thesis unfolding b .
  qed
  have "velocity_magnitude (accelerate cfg i s) i =
      sqrt (((?vx + ?ax) * 0.99)\<^sup>2 + ((?vy + ?ay) * 0.99)\<^sup>2 + ((?vz + ?az) * 0.99)\<^sup>2)"
    unfolding velocity_magnitude_def Let_def accelerate_velocity[OF assms(1,2)]
    by (simp add: power2_eq_square)
  also have "\<dots> = 0.99 * sqrt ((?vx + ?ax)\<^sup>2 + (?vy + ?ay)\<^sup>2 + (?vz + ?az)\<^sup>2)"
    by (rule norm3_scale) simp
  also have "\<dots> \<le> 0.99 * (sqrt (?vx\<^sup>2 + ?vy\<^sup>2 + ?vz\<^sup>2) + sqrt (?ax\<^sup>2 + ?ay\<^sup>2 + ?az\<^sup>2))"
    using norm3_triangle[of ?vx ?ax ?vy ?ay ?vz ?az] by simp
  also have "\<dots> \<le> 0.99 * (velocity_magnitude s i + held_speed_bound cfg / 99)"
    using a by (simp add: velocity_magnitude_def Let_def power2_eq_square)
  finally show ?thesis .
qed

section \<open>Rotation of the accretion disk\<close>

lemma sqrt_factor:
  fixes x y :: real
  assumes "x \<noteq> 0"
  shows "sqrt (x * x + y * y) = \<bar>x\<bar> * sqrt (1 + (y / x)\<^sup>2)"
proof -
  have "x * x + y * y = x\<^sup>2 * (1 + (y / x)\<^sup>2)"
    using assms by (simp add: power2_eq_square field_simps)
  then show ?thesis by (simp add: real_sqrt_mult)
qed

lemma atan2_polar:
  fixes x y :: real
  assumes "x \<noteq> 0 \<or> y \<noteq> 0"
  shows "sqrt (x * x + y * y) * cos (atan2 y x) = x"
    and "sqrt (x * x + y * y) * sin (atan2 y x) = y"
proof -
  have pos: "0 < sqrt (1 + (y / x)\<^sup>2)"
    by (simp add: add_pos_nonneg)
  consider "0 < x" | "x < 0" "0 \<le> y" | "x < 0" "y < 0" | "x = 0" "0 < y" | "x = 0" "y < 0"
    using assms by linarith
  then have "sqrt (x * x + y * y) * cos (atan2 y x) = x \<and> sqrt (x * x + y * y) * sin (atan2 y x) = y"
  proof cases
    case 1
    then show ?thesis using pos
      by (simp add: atan2_def sqrt_factor cos_arctan sin_arctan)
  next
    case 2
    then show ?thesis using pos
      by (simp add: atan2_def sqrt_factor cos_arctan sin_arctan)
  next
    case 3
    then show ?thesis using pos
      by (simp add: atan2_def sqrt_factor cos_arctan sin_arctan)
  next
    case 4
    then show ?thesis by (simp add: atan2_def)
  next
    case 5
    then show ?thesis by (simp add: atan2_def)
  qed
  then show "sqrt (x * x + y * y) * cos (atan2 y x) = x"
    and "sqrt (x * x + y * y) * sin (atan2 y x) = y" by simp_all
qed


lemma orbit_particle_length: "length (orbit_particle i p) = length p"
  by (simp add: orbit_particle_def Let_def)

lemma fold_orbit_particle_length: "length (fold orbit_particle js p) = length p"
  by (induction js arbitrary: p) (simp_all add: orbit_particle_length)

lemma orbit_particle_other: "j \<noteq> i \<Longrightarrow> disk_at (orbit_particle j p) i = disk_at p i"
  by (simp add: disk_at_def orbit_particle_def Let_def)

lemma fold_orbit_particle_other:
  "i \<notin> set js \<Longrightarrow> disk_at (fold orbit_particle js p) i = disk_at p i"
  by (induction js arbitrary: p) (auto simp: orbit_particle_other)

lemma orbit_particle_local:
  assumes "disk_at q i = disk_at p i" "i * 3 + 2 < length q" "i * 3 + 2 < length p"
  shows "disk_at (orbit_particle i q) i = disk_at (orbit_particle i p) i"
  using assms
  by (simp add: disk_at_def orbit_particle_def disk_radius_def disk_angle_def Let_def)

lemma animate_disk_at:
  assumes "length (disk_positions s) = disk_count s * 3" "i < disk_count s"
  shows "disk_at (disk_positions (animate_disk s)) i =
         disk_at (orbit_particle i (disk_positions s)) i"
proof -
  let ?p = "disk_positions s"
  let ?q = "fold orbit_particle [0..<i] ?p"
  have split: "[0..<disk_count s] = [0..<i] @ i # [Suc i..<disk_count s]"
    using assms(2) upt_add_eq_append[of 0 i "disk_count s - i"] by (simp add: upt_conv_Cons)
  have "disk_positions (animate_disk s) = fold orbit_particle [Suc i..<disk_count s] (orbit_particle i ?q)"
    by (simp add: animate_disk_def split)
  then have "disk_at (disk_positions (animate_disk s)) i = disk_at (orbit_particle i ?q) i"
    by (simp add: fold_orbit_particle_other)
  moreover have "disk_at ?q i = disk_at ?p i" by (simp add: fold_orbit_particle_other)
  moreover have "length ?q = length ?p" by (rule fold_orbit_particle_length)
  ultimately show ?thesis using orbit_particle_local[of ?q i ?p] assms by simp
qed

section \<open>Concrete states\<close>

lemma pull_star_at:
  assumes "buffers_ok s" "i < count s"
  shows "star_at (pull_star cfg rnd i s) i =
    (let vx = (velocities s ! (i * 3) + dirX s i * forceMagnitude cfg s i * 0.1
                 + - dirZ s i * orbitalSpeed cfg s i * 0.5) * 0.99;
         vy = (velocities s ! (i * 3 + 1) + dirY s i * forceMagnitude cfg s i * 0.1) * 0.99;
         vz = (velocities s ! (i * 3 + 2) + dirZ s i * forceMagnitude cfg s i * 0.1
                 + dirX s i * orbitalSpeed cfg s i * 0.5) * 0.99
     in [positions s ! (i * 3) + vx, positions s ! (i * 3 + 1) + vy,
         positions s ! (i * 3 + 2) + vz, vx, vy, vz,
         star_size cfg (rnd (rand_ix s)) (distanceToCenter s i), lifetimes s ! i + 1])"
  using assms
  by (simp add: star_at_def pull_defs buffers_ok_def Let_def)

lemma steady_draws_ok: "random_ok steady_draws"
  by (simp add: random_ok_def steady_draws_def)

lemma steady_star_at:
  assumes "i < 500"
  shows "star_at (starData cfg steady_draws k0) i =
    [- (accretionDiskSize cfg * 2 + accretionDiskSize cfg / 2), 0, 0, 0, 0, 0, 0.35, 50]"
  using starData_at[OF assms, of cfg steady_draws k0]
  by (simp add: steady_draws_def shell_point_def Let_def)

lemma steady_distance:
  assumes "i < 500" "0 \<le> accretionDiskSize cfg"
  shows "distanceToCenter (starData cfg steady_draws k0) i = accretionDiskSize cfg * 5 / 2"
proof -
  have "star_at (starData cfg steady_draws k0) i =
      shell_point cfg (1 / 2) (1 / 2) (1 / 2) @ [0, 0, 0, 0.2 + 1 / 2 * 0.3, 1 / 2 * 100]"
    using starData_at[OF assms(1), of cfg steady_draws k0] by (simp add: steady_draws_def)
  then have "distanceToCenter (starData cfg steady_draws k0) i =
      \<bar>accretionDiskSize cfg * 2 + 1 / 2 * accretionDiskSize cfg\<bar>"
    by (rule shell_point_distance)
  then show ?thesis using assms(2) by simp
qed

lemma steady_default_far:
  "\<not> reached_horizon default_props (starData default_props steady_draws 0) 0"
  using steady_distance[of 0 default_props 0]
  by (simp add: reached_horizon_def default_props_def)

lemma steady_wide_near:
  "reached_horizon wide_props (starData wide_props steady_draws 0) 0"
  using steady_distance[of 0 wide_props 0]
  by (simp add: reached_horizon_def wide_props_def)

lemma spawn_particle_frame:
  "disk_count (spawn_particle cfg rnd i s) = disk_count s"
  "disk_rand_ix (spawn_particle cfg rnd i s) = disk_rand_ix s + 4"
  "length (disk_positions (spawn_particle cfg rnd i s)) = length (disk_positions s)"
  by (simp_all add: spawn_particle_def Let_def)

lemma fold_spawn_particle_frame:
  "disk_count (fold (spawn_particle cfg rnd) js s) = disk_count s \<and>
   disk_rand_ix (fold (spawn_particle cfg rnd) js s) = disk_rand_ix s + 4 * length js \<and>
   length (disk_positions (fold (spawn_particle cfg rnd) js s)) = length (disk_positions s)"
  by (induction js arbitrary: s) (simp_all add: spawn_particle_frame)

lemma spawn_particle_other:
  "j \<noteq> i \<Longrightarrow> disk_at (disk_positions (spawn_particle cfg rnd j s)) i = disk_at (disk_positions s) i"
  by (simp add: disk_at_def spawn_particle_def Let_def)

lemma fold_spawn_particle_other:
  "i \<notin> set js \<Longrightarrow>
   disk_at (disk_positions (fold (spawn_particle cfg rnd) js s)) i = disk_at (disk_positions s) i"
  by (induction js arbitrary: s) (auto simp: spawn_particle_other)

lemma fold_spawn_particle_at:
  assumes "i < n" "n * 3 \<le> length (disk_positions s)"
  shows "disk_at (disk_positions (fold (spawn_particle cfg rnd) [0..<n] s)) i =
    (let k = disk_rand_ix s + 4 * i;
         angle = rnd k * pi * 2;
         radius = size_bh cfg * 1.5 + rnd (k + 1) * accretionDiskSize cfg
     in [cos angle * radius, (rnd (k + 2) - 0.5) * 0.5, sin angle * radius])"
proof -
  let ?f = "spawn_particle cfg rnd"
  let ?t = "fold ?f [0..<i] s"
  have split: "[0..<n] = [0..<i] @ i # [Suc i..<n]"
    using assms(1) upt_add_eq_append[of 0 i "n - i"] by (simp add: upt_conv_Cons)
  have "fold ?f [0..<n] s = fold ?f [Suc i..<n] (?f i ?t)"
    by (subst split) simp
  then have "disk_at (disk_positions (fold ?f [0..<n] s)) i = disk_at (disk_positions (?f i ?t)) i"
    by (simp add: fold_spawn_particle_other)
  moreover have "disk_rand_ix ?t = disk_rand_ix s + 4 * i"
    "length (disk_positions ?t) = length (disk_positions s)"
    using fold_spawn_particle_frame[of cfg rnd "[0..<i]" s] by simp_all
  ultimately show ?thesis using assms
    by (simp add: disk_at_def spawn_particle_def Let_def)
qed

lemma particleData_frame:
  "disk_count (particleData cfg rnd k0) = 2000"
  "length (disk_positions (particleData cfg rnd k0)) = 6000"
  unfolding particleData_def using fold_spawn_particle_frame[of cfg rnd "[0..<2000]"] by simp_all

lemma steady_disk_at:
  assumes "i < 2000"
  shows "disk_at (disk_positions (particleData cfg steady_draws k0)) i =
    [- (size_bh cfg * 1.5 + accretionDiskSize cfg / 2), 0, 0]"
  unfolding particleData_def using assms
  by (subst fold_spawn_particle_at) (simp_all add: steady_draws_def Let_def)

lemma sqrt_eqI:
  fixes a b :: real
  assumes "0 \<le> a" "a * a = b"
  shows "sqrt b = a"
  using assms real_sqrt_unique[of a b] by (simp add: power2_eq_square)

lemma steady_disk_radius:
  "disk_radius (disk_positions (particleData default_props steady_draws 0)) 0 = 17 / 2"
proof -
  have "disk_at (disk_positions (particleData default_props steady_draws 0)) 0 = [- (17 / 2), 0, 0]"
    using steady_disk_at[of 0 default_props 0] by (simp add: default_props_def)
  moreover have "sqrt (289 / 4) = (17 / 2 :: real)" by (rule sqrt_eqI) simp_all
  ultimately show ?thesis
    by (simp add: disk_at_def disk_radius_def Let_def)
qed

section \<open>Following one star through a frame\<close>

lemma animate_stars_respawn:
  assumes "buffers_ok s" "i < count s" "random_ok rnd" "0 < accretionDiskSize cfg"
    "reached_horizon cfg s i"
  shows "\<exists>u v w q. 0 \<le> u \<and> u < 1 \<and> 0 \<le> v \<and> v < 1 \<and> 0 \<le> w \<and> w < 1 \<and> 0 \<le> q \<and> q < 1 \<and>
           star_at (animate_stars cfg rnd s) i = shell_point cfg u v w @ [0, 0, 0, 0.2 + q * 0.3, 0]"
    and "accretionDiskSize cfg * 2 \<le> distanceToCenter (animate_stars cfg rnd s) i"
    and "distanceToCenter (animate_stars cfg rnd s) i < accretionDiskSize cfg * 3"
proof -
  obtain k where k: "star_at (animate_stars cfg rnd s) i =
      star_at (update_star cfg rnd i (s\<lparr>rand_ix := k\<rparr>)) i"
    using animate_stars_at[OF assms(1,2)] by blast
  let ?s = "s\<lparr>rand_ix := k\<rparr>"
  have ok: "buffers_ok ?s" "i < count ?s" using assms by (simp_all add: buffers_ok_def)
  have same: "reached_horizon cfg ?s i = reached_horizon cfg s i"
    by (simp add: reached_horizon_def distanceToCenter_def)
  have rnd: "\<And>j. 0 \<le> rnd j \<and> rnd j < 1" using assms(3) by (simp add: random_ok_def)
  have at: "star_at (animate_stars cfg rnd s) i =
      shell_point cfg (rnd k) (rnd (k + 1)) (rnd (k + 2)) @ [0, 0, 0, 0.2 + rnd (k + 3) * 0.3, 0]"
    using k assms(5) same respawn_star_at[OF ok, of cfg rnd] by (simp add: update_star_def)
  have d: "distanceToCenter (animate_stars cfg rnd s) i =
      \<bar>accretionDiskSize cfg * 2 + rnd (k + 2) * accretionDiskSize cfg\<bar>"
    using at by (rule shell_point_distance)
  show "accretionDiskSize cfg * 2 \<le> distanceToCenter (animate_stars cfg rnd s) i"
    "distanceToCenter (animate_stars cfg rnd s) i < accretionDiskSize cfg * 3"
    unfolding d using shell_radius_bounds[OF assms(4), of "rnd (k + 2)"] rnd by simp_all
  show "\<exists>u v w q. 0 \<le> u \<and> u < 1 \<and> 0 \<le> v \<and> v < 1 \<and> 0 \<le> w \<and> w < 1 \<and> 0 \<le> q \<and> q < 1 \<and>
       star_at (animate_stars cfg rnd s) i = shell_point cfg u v w @ [0, 0, 0, 0.2 + q * 0.3, 0]"
    using at rnd by blast
qed

lemma animate_stars_pull:
  assumes "buffers_ok s" "i < count s" "\<not> reached_horizon cfg s i"
  shows "star_at (animate_stars cfg rnd s) i =
         star_at (pull_star cfg rnd i
           (s\<lparr>rand_ix := rand_ix (fold (update_star cfg rnd) [0..<i] s)\<rparr>)) i"
proof -
  let ?s = "s\<lparr>rand_ix := rand_ix (fold (update_star cfg rnd) [0..<i] s)\<rparr>"
  have "reached_horizon cfg ?s i = reached_horizon cfg s i"
    by (simp add: reached_horizon_def distanceToCenter_def)
  then show ?thesis
    using animate_stars_at_ix[OF assms(1,2), of cfg rnd] assms(3) by (simp add: update_star_def)
qed

lemma update_star_draws:
  "rand_ix (update_star cfg rnd i s) = rand_ix s + (if reached_horizon cfg s i then 4 else 1)"
  by (simp add: update_star_def respawn_star_def pull_defs Let_def)

lemma fold_update_star_draws:
  assumes "buffers_ok s" "i \<le> count s"
  shows "rand_ix (fold (update_star cfg rnd) [0..<i] s) = draws_before cfg s i"
  using assms(2)
proof (induction i)
  case 0
  show ?case by (simp add: draws_before_def)
next
  case (Suc i)
  let ?t = "fold (update_star cfg rnd) [0..<i] s"
  have "star_at ?t i = star_at s i" by (simp add: fold_update_star_other)
  then have same: "reached_horizon cfg ?t i = reached_horizon cfg s i"
    using distance_star_at[of ?t i s] by (simp add: reached_horizon_def)
  have "rand_ix (fold (update_star cfg rnd) [0..<Suc i] s) = rand_ix (update_star cfg rnd i ?t)"
    by simp
  also have "\<dots> = rand_ix ?t + (if reached_horizon cfg s i then 4 else 1)"
    by (simp only: update_star_draws same)
  also have "\<dots> = draws_before cfg s i + (if reached_horizon cfg s i then 4 else 1)"
    using Suc by simp
  also have "\<dots> = draws_before cfg s (Suc i)" by (simp add: draws_before_def)
  finally show ?case .
qed

lemma animate_stars_respawn_at:
  assumes "buffers_ok s" "i < count s" "reached_horizon cfg s i"
  shows "star_at (animate_stars cfg rnd s) i =
     shell_point cfg (rnd (draws_before cfg s i)) (rnd (draws_before cfg s i + 1))
       (rnd (draws_before cfg s i + 2)) @
     [0, 0, 0, 0.2 + rnd (draws_before cfg s i + 3) * 0.3, 0]"
proof -
  let ?k = "rand_ix (fold (update_star cfg rnd) [0..<i] s)"
  let ?s = "s\<lparr>rand_ix := ?k\<rparr>"
  have k: "?k = draws_before cfg s i"
    using fold_update_star_draws[OF assms(1), of i cfg rnd] assms(2) by simp
  have ok: "buffers_ok ?s" "i < count ?s" using assms by (simp_all add: buffers_ok_def)
  have same: "reached_horizon cfg ?s i = reached_horizon cfg s i"
    by (simp add: reached_horizon_def distanceToCenter_def)
  have "star_at (animate_stars cfg rnd s) i = star_at (respawn_star cfg rnd i ?s) i"
    using animate_stars_at_ix[OF assms(1,2), of cfg rnd] assms(3) same
    by (simp add: update_star_def)
  then show ?thesis
    unfolding respawn_star_at[OF ok] by (simp add: k)
qed

lemma animate_stars_pull_at:
  assumes "buffers_ok s" "i < count s" "\<not> reached_horizon cfg s i"
  shows "star_at (animate_stars cfg rnd s) i =
    (let vx = (velocities s ! (i * 3) + dirX s i * forceMagnitude cfg s i * 0.1
                 + - dirZ s i * orbitalSpeed cfg s i * 0.5) * 0.99;
         vy = (velocities s ! (i * 3 + 1) + dirY s i * forceMagnitude cfg s i * 0.1) * 0.99;
         vz = (velocities s ! (i * 3 + 2) + dirZ s i * forceMagnitude cfg s i * 0.1
                 + dirX s i * orbitalSpeed cfg s i * 0.5) * 0.99
     in [positions s ! (i * 3) + vx, positions s ! (i * 3 + 1) + vy,
         positions s ! (i * 3 + 2) + vz, vx, vy, vz,
         star_size cfg (rnd (draws_before cfg s i)) (distanceToCenter s i),
         lifetimes s ! i + 1])"
proof -
  let ?k = "rand_ix (fold (update_star cfg rnd) [0..<i] s)"
  let ?s = "s\<lparr>rand_ix := ?k\<rparr>"
  have k: "?k = draws_before cfg s i"
    using fold_update_star_draws[OF assms(1), of i cfg rnd] assms(2) by simp
  have ok: "buffers_ok ?s" "i < count ?s" using assms by (simp_all add: buffers_ok_def)
  have loc: "distanceToCenter ?s i = distanceToCenter s i"
    "forceMagnitude cfg ?s i = forceMagnitude cfg s i"
    "orbitalSpeed cfg ?s i = orbitalSpeed cfg s i"
    "dirX ?s i = dirX s i" "dirY ?s i = dirY s i" "dirZ ?s i = dirZ s i"
    by (simp_all add: local_defs)
  show ?thesis
    unfolding animate_stars_pull[OF assms] pull_star_at[OF ok] loc
    by (simp add: k)
qed


lemma animate_stars_draws:
  assumes "buffers_ok s"
  shows "rand_ix (animate_stars cfg rnd s) = draws_before cfg s (count s)"
  unfolding animate_stars_def using fold_update_star_draws[OF assms, of "count s" cfg rnd] by simp

lemma starData_on_shell:
  assumes "random_ok rnd" "0 < accretionDiskSize cfg" "i < 500"
  shows "accretionDiskSize cfg * 2 \<le> distanceToCenter (starData cfg rnd k0) i"
    and "distanceToCenter (starData cfg rnd k0) i < accretionDiskSize cfg * 3"
proof -
  have rnd: "0 \<le> rnd (k0 + 6 * i + 2)" "rnd (k0 + 6 * i + 2) < 1"
    using assms(1) by (simp_all add: random_ok_def)
  have d: "distanceToCenter (starData cfg rnd k0) i =
      \<bar>accretionDiskSize cfg * 2 + rnd (k0 + 6 * i + 2) * accretionDiskSize cfg\<bar>"
    using starData_at[OF assms(3), of cfg rnd k0] by (rule shell_point_distance)
  show "accretionDiskSize cfg * 2 \<le> distanceToCenter (starData cfg rnd k0) i"
    "distanceToCenter (starData cfg rnd k0) i < accretionDiskSize cfg * 3"
    unfolding d using shell_radius_bounds[OF assms(2) rnd] by simp_all
qed

lemma funpow_animate_stars_ok:
  assumes "buffers_ok s"
  shows "buffers_ok ((animate_stars cfg rnd ^^ n) s)"
  using assms funpow_animate_stars_frame[of n cfg rnd s] by (simp add: buffers_ok_def)

lemma pull_from_view:
  assumes "buffers_ok s" "i < count s"
    and "star_at s i = [x, y, z, vx, vy, vz, sz, lt]"
    and "d = sqrt (x * x + y * y + z * z)"
    and "\<not> d < size_bh cfg * 1.5"
    and "f = gravitationalStrength cfg * 0.5 / (d * d)"
    and "os = sqrt (f / d) * 2"
  shows "star_at (animate_stars cfg rnd s) i =
    [x + (vx + - x / d * f * 0.1 + - (- z / d) * os * 0.5) * 0.99,
     y + (vy + - y / d * f * 0.1) * 0.99,
     z + (vz + - z / d * f * 0.1 + - x / d * os * 0.5) * 0.99,
     (vx + - x / d * f * 0.1 + - (- z / d) * os * 0.5) * 0.99,
     (vy + - y / d * f * 0.1) * 0.99,
     (vz + - z / d * f * 0.1 + - x / d * os * 0.5) * 0.99,
     star_size cfg (rnd (rand_ix (fold (update_star cfg rnd) [0..<i] s))) d,
     lt + 1]"
proof -
  let ?s = "s\<lparr>rand_ix := rand_ix (fold (update_star cfg rnd) [0..<i] s)\<rparr>"
  have v: "positions s ! (i * 3) = x" "positions s ! (i * 3 + 1) = y" "positions s ! (i * 3 + 2) = z"
    "velocities s ! (i * 3) = vx" "velocities s ! (i * 3 + 1) = vy" "velocities s ! (i * 3 + 2) = vz"
    "lifetimes s ! i = lt"
    using assms(3) by (simp_all add: star_at_def)
  have d: "distanceToCenter s i = d" using v by (simp add: distanceToCenter_def Let_def assms(4))
  have far: "\<not> reached_horizon cfg s i" using assms(5) by (simp add: reached_horizon_def d)
  have ok: "buffers_ok ?s" "i < count ?s" using assms(1,2) by (simp_all add: buffers_ok_def)
  have loc: "distanceToCenter ?s i = d" "forceMagnitude cfg ?s i = f" "orbitalSpeed cfg ?s i = os"
    "dirX ?s i = - x / d" "dirY ?s i = - y / d" "dirZ ?s i = - z / d"
    using d v assms(6,7)
    by (simp_all add: distanceToCenter_def forceMagnitude_def orbitalSpeed_def
        dirX_def dirY_def dirZ_def)
  show ?thesis
    unfolding animate_stars_pull[OF assms(1,2) far] pull_star_at[OF ok] loc Let_def
    using v by simp
qed

lemma view_distance:
  assumes "star_at s i = [x, y, z, vx, vy, vz, sz, lt]"
  shows "distanceToCenter s i = sqrt (x * x + y * y + z * z)"
  using assms by (simp add: star_at_def distanceToCenter_def Let_def)

lemma axis_distance: "sqrt (0 * 0 + y * y + 0 * 0) = \<bar>y\<bar>"
  by simp

lemma sqrt_36: "sqrt 36 = 6"
  by (rule sqrt_eqI) simp_all

lemma starData_rand_ix: "rand_ix (starData cfg rnd k0) = k0 + 3000"
  unfolding starData_def using fold_spawn_star_frame[of cfg rnd "[0..<500]"] by simp

lemma touching_star_at:
  "star_at (starData touching_props pole_draws 0) 0 = [0, 6, 0, 0, 0, 0, 0.35, 50]"
  using starData_at[of 0 touching_props pole_draws 0]
  by (simp add: pole_draws_def touching_props_def shell_point_def Let_def)

lemma touching_after_frame:
  "star_at (animate_stars touching_props pole_draws (starData touching_props pole_draws 0)) 0 =
     [0, 6 - 11 / 16000, 0, 0, - (11 / 16000), 0,
      star_size touching_props (pole_draws 3000) 6, 51]"
proof -
  let ?s = "starData touching_props pole_draws 0"
  have c: "0 < count ?s" by (simp add: starData_count)
  have far: "\<not> (6::real) < size_bh touching_props * 1.5" by (simp add: touching_props_def)
  show ?thesis
    using pull_from_view[OF starData_buffers_ok c touching_star_at _ far refl refl, of pole_draws]
    by (simp add: sqrt_36 starData_rand_ix touching_props_def)
qed

lemma flicker_draws_ok: "random_ok flicker_draws"
  by (simp add: random_ok_def flicker_draws_def)

lemma flicker_star_at:
  "star_at (starData default_props flicker_draws 0) 0 = [- 20, 0, 0, 0, 0, 0, 0.35, 50]"
  using starData_at[of 0 default_props flicker_draws 0]
  by (simp add: flicker_draws_def default_props_def shell_point_def Let_def)

lemma sqrt_400: "sqrt 400 = 20"
  by (rule sqrt_eqI) simp_all

lemma flicker_after_frame:
  "star_at (animate_stars default_props flicker_draws (starData default_props flicker_draws 0)) 0 =
     [- 20 + 99 / 1600000, 0, 99 / 100 * sqrt (1 / 32000), 99 / 1600000, 0,
      99 / 100 * sqrt (1 / 32000), 1 / 6, 51]"
proof -
  let ?s = "starData default_props flicker_draws 0"
  have c: "0 < count ?s" by (simp add: starData_count)
  have far: "\<not> (20::real) < size_bh default_props * 1.5" by (simp add: default_props_def)
  show ?thesis
    using pull_from_view[OF starData_buffers_ok c flicker_star_at _ far refl refl, of flicker_draws]
    by (simp add: sqrt_400 starData_rand_ix default_props_def flicker_draws_def star_size_def)
qed


lemma update_star_rand_ix: "rand_ix s < rand_ix (update_star cfg rnd i s)"
  by (simp add: update_star_def respawn_star_def pull_defs Let_def)

lemma fold_update_star_rand_ix: "rand_ix s \<le> rand_ix (fold (update_star cfg rnd) js s)"
proof (induction js arbitrary: s)
  case Nil
  then show ?case by simp
next
  case (Cons j js)
  have "rand_ix s < rand_ix (update_star cfg rnd j s)" by (rule update_star_rand_ix)
  also have "\<dots> \<le> rand_ix (fold (update_star cfg rnd) js (update_star cfg rnd j s))"
    by (rule Cons.IH)
  finally show ?case by simp
qed

lemma animate_stars_rand_ix:
  assumes "0 < count s"
  shows "rand_ix s < rand_ix (animate_stars cfg rnd s)"
proof -
  have "[0..<count s] = 0 # [Suc 0..<count s]" using assms by (simp add: upt_conv_Cons)
  then have "animate_stars cfg rnd s =
      fold (update_star cfg rnd) [Suc 0..<count s] (update_star cfg rnd 0 s)"
    by (simp add: animate_stars_def)
  then show ?thesis
    using update_star_rand_ix[of s cfg rnd 0]
      fold_update_star_rand_ix[of "update_star cfg rnd 0 s" cfg rnd "[Suc 0..<count s]"]
    by simp
qed

lemma flicker_second_distance:
  defines "d1 \<equiv> sqrt ((- 20 + 99 / 1600000) * (- 20 + 99 / 1600000) + 0 * 0 +
      (99 / 100 * sqrt (1 / 32000)) * (99 / 100 * sqrt (1 / 32000)))"
  shows "19 \<le> d1" "d1 < 20"
proof -
  have q: "(- 20 + 99 / 1600000) * (- 20 + 99 / 1600000) + 0 * 0 +
      (99 / 100 * sqrt (1 / 32000)) * (99 / 100 * sqrt (1 / 32000))
      = (- 20 + 99 / 1600000) * (- 20 + 99 / 1600000) + 9801 / 320000000"
  proof -
    have "(99 / 100 * sqrt (1 / 32000)) * (99 / 100 * sqrt (1 / 32000))
        = (99 / 100) * (99 / 100) * (sqrt (1 / 32000) * sqrt (1 / 32000))"
      by (simp only: mult.assoc mult.left_commute)
    also have "\<dots> = 9801 / 320000000" by simp
    finally show ?thesis by simp
  qed
  have "sqrt 361 \<le> d1" unfolding d1_def q by (rule real_sqrt_le_mono) simp
  moreover have "sqrt 361 = 19" by (rule sqrt_eqI) simp_all
  ultimately show "19 \<le> d1" by simp
  have "d1 < sqrt 400" unfolding d1_def q by (rule real_sqrt_less_mono) simp
  then show "d1 < 20" by (simp add: sqrt_400)
qed

section \<open>A radial fall with the default configuration\<close>

lemma default_pole_star_at:
  "star_at (starData default_props pole_draws 0) 0 = [0, 16, 0, 0, 0, 0, 0.35, 50]"
  using starData_at[of 0 default_props pole_draws 0]
  by (simp add: pole_draws_def default_props_def shell_point_def Let_def)

lemma axis_fall_step:
  assumes ok: "buffers_ok s" and c: "0 < count s"
    and at: "star_at s 0 = [0, y, 0, 0, w, 0, sz, lt]"
    and y: "9 / 2 \<le> y" "y \<le> 16" and w: "- 1 \<le> w" "w \<le> 0"
  shows "\<exists>sz' lt'. star_at (animate_stars default_props rnd s) 0 =
           [0, y + (w - 1 / (40 * (y * y))) * (99 / 100), 0,
            0, (w - 1 / (40 * (y * y))) * (99 / 100), 0, sz', lt']"
    and "- 1 \<le> (w - 1 / (40 * (y * y))) * (99 / 100)"
    and "(w - 1 / (40 * (y * y))) * (99 / 100) \<le> - (99 / 1024000)"
proof -
  have ypos: "0 < y" using y(1) by simp
  have d: "sqrt (0 * 0 + y * y + 0 * 0) = y" using ypos by simp
  have far: "\<not> sqrt (0 * 0 + y * y + 0 * 0) < size_bh default_props * 1.5"
    unfolding d using y(1) by (simp add: default_props_def)
  have "star_at (animate_stars default_props rnd s) 0 =
      [0, y + (w - 1 / (40 * (y * y))) * (99 / 100), 0,
       0, (w - 1 / (40 * (y * y))) * (99 / 100), 0,
       star_size default_props (rnd (rand_ix (fold (update_star default_props rnd) [0..<0] s))) y,
       lt + 1]"
    unfolding pull_from_view[OF ok c at refl far refl refl, of rnd] d
    using ypos by (simp add: default_props_def field_simps)
  then show "\<exists>sz' lt'. star_at (animate_stars default_props rnd s) 0 =
           [0, y + (w - 1 / (40 * (y * y))) * (99 / 100), 0,
            0, (w - 1 / (40 * (y * y))) * (99 / 100), 0, sz', lt']"
    by blast
  have yy: "81 / 4 \<le> y * y" "y * y \<le> 256"
  proof -
    have "9 / 2 * (9 / 2) \<le> y * y" using y(1) by (intro mult_mono) simp_all
    then show "81 / 4 \<le> y * y" by simp
    have "y * y \<le> 16 * 16" using y(2) ypos by (intro mult_mono) simp_all
    then show "y * y \<le> 256" by simp
  qed
  have lo: "1 / (40 * (y * y)) \<le> 1 / (40 * (81 / 4))"
    using yy(1) by (intro divide_left_mono) simp_all
  have hi: "1 / (40 * 256) \<le> 1 / (40 * (y * y))"
    using yy ypos by (intro divide_left_mono) simp_all
  show "- 1 \<le> (w - 1 / (40 * (y * y))) * (99 / 100)" using w(1) lo by simp
  show "(w - 1 / (40 * (y * y))) * (99 / 100) \<le> - (99 / 1024000)" using w(2) hi by simp
qed


text \<open>
  The same happens with the default configuration: a star spawned on the \<open>y\<close> axis gets no
  orbital increment, falls straight towards the centre, loses at least \<open>99 / 1024000\<close> of
  distance per frame and so is below the event-horizon radius at the end of some frame.
\<close>

lemma default_star_reaches_horizon:
  "\<exists>n \<le> 200000. distanceToCenter
      ((animate_stars default_props pole_draws ^^ n) (starData default_props pole_draws 0)) 0
    < size_bh default_props * 1.5"
proof (rule ccontr)
  let ?S = "\<lambda>n. (animate_stars default_props pole_draws ^^ n) (starData default_props pole_draws 0)"
  assume "\<not> (\<exists>n \<le> 200000. distanceToCenter (?S n) 0 < size_bh default_props * 1.5)"
  then have far: "9 / 2 \<le> distanceToCenter (?S n) 0" if "n \<le> 200000" for n
    using that by (auto simp: default_props_def not_less)
  have ok: "buffers_ok (?S n)" for n
    by (rule funpow_animate_stars_ok[OF starData_buffers_ok])
  have cnt: "0 < count (?S n)" for n
    using funpow_animate_stars_frame[of n default_props pole_draws "starData default_props pole_draws 0"]
    by (simp add: starData_count)
  have inv: "n \<le> 200000 \<Longrightarrow> \<exists>y w sz lt. star_at (?S n) 0 = [0, y, 0, 0, w, 0, sz, lt] \<and>
      9 / 2 \<le> y \<and> y \<le> 16 - real n * (99 / 1024000) \<and> - 1 \<le> w \<and> w \<le> 0" for n
  proof (induction n)
    case 0
    have "star_at (?S 0) 0 = [0, 16, 0, 0, 0, 0, 0.35, 50]"
      using default_pole_star_at by simp
    moreover have "(9 / 2 :: real) \<le> 16" "(16::real) \<le> 16 - real (0::nat) * (99 / 1024000)"
      "- 1 \<le> (0::real)" "(0::real) \<le> 0" by simp_all
    ultimately show ?case by blast
  next
    case (Suc n)
    then obtain y w sz lt where at: "star_at (?S n) 0 = [0, y, 0, 0, w, 0, sz, lt]"
      and y: "9 / 2 \<le> y" "y \<le> 16 - real n * (99 / 1024000)" and w: "- 1 \<le> w" "w \<le> 0"
      by auto
    have y16: "y \<le> 16" using y(2) by (smt (verit) mult_nonneg_nonneg of_nat_0_le_iff divide_nonneg_nonneg)
    let ?w = "(w - 1 / (40 * (y * y))) * (99 / 100)"
    obtain sz' lt' where at': "star_at (animate_stars default_props pole_draws (?S n)) 0 =
        [0, y + ?w, 0, 0, ?w, 0, sz', lt']"
      using axis_fall_step(1)[OF ok cnt at y(1) y16 w, of pole_draws] by blast
    have w': "- 1 \<le> ?w" "?w \<le> - (99 / 1024000)"
      using axis_fall_step(2,3)[OF ok cnt at y(1) y16 w] by simp_all
    have at'': "star_at (?S (Suc n)) 0 = [0, y + ?w, 0, 0, ?w, 0, sz', lt']"
      using at' by simp
    have "distanceToCenter (?S (Suc n)) 0 = \<bar>y + ?w\<bar>"
      unfolding view_distance[OF at''] by (rule axis_distance)
    then have "9 / 2 \<le> \<bar>y + ?w\<bar>" using far[OF Suc.prems] by simp
    then have lo: "9 / 2 \<le> y + ?w" using y(1) w'(1) by linarith
    have e: "real (Suc n) * (99 / 1024000) = real n * (99 / 1024000) + 99 / 1024000"
      by (simp add: distrib_right)
    have hi: "y + ?w \<le> 16 - real (Suc n) * (99 / 1024000)"
      unfolding e using y(2) w'(2) by linarith
    have "?w \<le> 0" using w'(2) by linarith
    then show ?case using at'' lo hi w'(1) by blast
  qed
  obtain y where "9 / 2 \<le> y" "y \<le> 16 - real (200000::nat) * (99 / 1024000)"
    using inv[of 200000] by auto
  then show False by simp
qed

section \<open>The claims\<close>

text \<open>
  C1 fails as stated: with \<open>size = 4\<close>, \<open>accretionDiskSize = 3\<close> and
  \<open>gravitationalStrength = 0.5\<close>, the first star spawned on the \<open>y\<close> axis at radius \<open>6\<close>
  is, after one frame, at distance \<open>6 - 11 / 16000\<close>, below the event-horizon radius \<open>6\<close>.
\<close>

theorem star_falls_below_horizon:
  "distanceToCenter (animate_stars touching_props pole_draws (starData touching_props pole_draws 0)) 0
     < size_bh touching_props * 1.5"
proof -
  have "distanceToCenter
      (animate_stars touching_props pole_draws (starData touching_props pole_draws 0)) 0
      = \<bar>6 - 11 / 16000\<bar>"
    unfolding view_distance[OF touching_after_frame] by (rule axis_distance)
  then show ?thesis by (simp add: touching_props_def)
qed

text \<open>
  C1, as amended. At the initial spawn every star is at a distance in
  \<open>[2 * accretionDiskSize, 3 * accretionDiskSize)\<close> from the centre, and after any number
  of frames a star that is below the event-horizon radius at the start of a frame is back
  at a distance in \<open>[2 * accretionDiskSize, 3 * accretionDiskSize)\<close> at the end of that
  frame. Nothing is said about the distance between respawns.
\<close>

theorem respawn_returns_star_to_shell:
  assumes "random_ok rnd" "0 < accretionDiskSize cfg" "i < 500"
  shows "accretionDiskSize cfg * 2 \<le> distanceToCenter (starData cfg rnd k0) i \<and>
         distanceToCenter (starData cfg rnd k0) i < accretionDiskSize cfg * 3 \<and>
         (reached_horizon cfg ((animate_stars cfg rnd ^^ n) (starData cfg rnd k0)) i \<longrightarrow>
            accretionDiskSize cfg * 2 \<le>
              distanceToCenter ((animate_stars cfg rnd ^^ Suc n) (starData cfg rnd k0)) i \<and>
            distanceToCenter ((animate_stars cfg rnd ^^ Suc n) (starData cfg rnd k0)) i
              < accretionDiskSize cfg * 3)"
proof -
  let ?s = "(animate_stars cfg rnd ^^ n) (starData cfg rnd k0)"
  have ok: "buffers_ok ?s" by (rule funpow_animate_stars_ok[OF starData_buffers_ok])
  have "count ?s = 500"
    using funpow_animate_stars_frame[of n cfg rnd "starData cfg rnd k0"] by (simp add: starData_count)
  then have i: "i < count ?s" using assms(3) by simp
  show ?thesis
    using starData_on_shell[OF assms, of k0]
      animate_stars_respawn(2,3)[OF ok i assms(1,2)]
    by simp
qed

theorem respawn_returns_star_to_shell_witness:
  "random_ok steady_draws \<and> 0 < accretionDiskSize wide_props \<and> (0::nat) < 500 \<and>
   accretionDiskSize wide_props * 2 \<le> distanceToCenter (starData wide_props steady_draws 0) 0 \<and>
   distanceToCenter (starData wide_props steady_draws 0) 0 < accretionDiskSize wide_props * 3 \<and>
   reached_horizon wide_props ((animate_stars wide_props steady_draws ^^ 0) (starData wide_props steady_draws 0)) 0 \<and>
   accretionDiskSize wide_props * 2 \<le>
     distanceToCenter ((animate_stars wide_props steady_draws ^^ Suc 0) (starData wide_props steady_draws 0)) 0 \<and>
   distanceToCenter ((animate_stars wide_props steady_draws ^^ Suc 0) (starData wide_props steady_draws 0)) 0
     < accretionDiskSize wide_props * 3"
proof -
  have a: "0 < accretionDiskSize wide_props" by (simp add: wide_props_def)
  have i: "(0::nat) < 500" by simp
  have h: "reached_horizon wide_props
      ((animate_stars wide_props steady_draws ^^ 0) (starData wide_props steady_draws 0)) 0"
    using steady_wide_near by simp
  show ?thesis
    using respawn_returns_star_to_shell[OF steady_draws_ok a i, of 0 0] h a i steady_draws_ok
    by blast
qed

text \<open>
  C9. Every per-frame update of the stars, and so any number of them, leaves the colour
  buffer as it was, respawns included, and changes neither the number of stars nor the
  length of the position, velocity, size, colour and lifetime buffers.
\<close>

theorem star_update_keeps_colors_and_lengths:
  "colors ((animate_stars cfg rnd ^^ n) s) = colors s \<and>
   count ((animate_stars cfg rnd ^^ n) s) = count s \<and>
   length (positions ((animate_stars cfg rnd ^^ n) s)) = length (positions s) \<and>
   length (velocities ((animate_stars cfg rnd ^^ n) s)) = length (velocities s) \<and>
   length (sizes ((animate_stars cfg rnd ^^ n) s)) = length (sizes s) \<and>
   length (colors ((animate_stars cfg rnd ^^ n) s)) = length (colors s) \<and>
   length (lifetimes ((animate_stars cfg rnd ^^ n) s)) = length (lifetimes s)"
proof (induction n)
  case 0
  show ?case by simp
next
  case (Suc n)
  let ?t = "(animate_stars cfg rnd ^^ n) s"
  have step: "colors (animate_stars cfg rnd ?t) = colors ?t"
    "count (animate_stars cfg rnd ?t) = count ?t"
    "length (positions (animate_stars cfg rnd ?t)) = length (positions ?t)"
    "length (velocities (animate_stars cfg rnd ?t)) = length (velocities ?t)"
    "length (sizes (animate_stars cfg rnd ?t)) = length (sizes ?t)"
    "length (lifetimes (animate_stars cfg rnd ?t)) = length (lifetimes ?t)"
    using animate_stars_frame[of cfg rnd ?t] by simp_all
  show ?case using Suc.IH by (simp add: step)
qed

text \<open>
  C2. In a frame a star is respawned exactly when its distance to the centre is below the
  event-horizon radius \<open>size * 1.5\<close>, whatever its lifetime counter holds. With \<open>k\<close> the
  number of draws made when the star's turn comes, a respawned star is put at the shell
  point of the draws \<open>k\<close>, \<open>k + 1\<close>, \<open>k + 2\<close>, at a radius in
  \<open>[2 * accretionDiskSize, 3 * accretionDiskSize)\<close>, with velocity \<open>(0, 0, 0)\<close>, the fresh
  size \<open>0.2 + rnd (k + 3) * 0.3\<close> and lifetime \<open>0\<close>; a star that is not respawned is moved
  by the pull of the centre from where it was, and its lifetime is incremented by \<open>1\<close>.
\<close>

theorem respawn_exactly_at_horizon:
  assumes "buffers_ok s" "i < count s" "random_ok rnd" "0 < accretionDiskSize cfg"
  shows "(let k = draws_before cfg s i;
              s' = animate_stars cfg rnd s;
              vx = (velocities s ! (i * 3) + dirX s i * forceMagnitude cfg s i * 0.1
                      + - dirZ s i * orbitalSpeed cfg s i * 0.5) * 0.99;
              vy = (velocities s ! (i * 3 + 1) + dirY s i * forceMagnitude cfg s i * 0.1) * 0.99;
              vz = (velocities s ! (i * 3 + 2) + dirZ s i * forceMagnitude cfg s i * 0.1
                      + dirX s i * orbitalSpeed cfg s i * 0.5) * 0.99
          in (reached_horizon cfg s i \<longleftrightarrow> distanceToCenter s i < size_bh cfg * 1.5) \<and>
             (\<forall>l. reached_horizon cfg (s\<lparr>lifetimes := l\<rparr>) i = reached_horizon cfg s i) \<and>
             star_at s' i = star_at (update_star cfg rnd i (s\<lparr>rand_ix := k\<rparr>)) i \<and>
             rand_ix s' = draws_before cfg s (count s) \<and>
             (reached_horizon cfg s i \<longrightarrow>
                star_at s' i =
                  shell_point cfg (rnd k) (rnd (k + 1)) (rnd (k + 2)) @
                  [0, 0, 0, 0.2 + rnd (k + 3) * 0.3, 0] \<and>
                (\<exists>u v w q. 0 \<le> u \<and> u < 1 \<and> 0 \<le> v \<and> v < 1 \<and> 0 \<le> w \<and> w < 1 \<and>
                   0 \<le> q \<and> q < 1 \<and>
                   star_at s' i = shell_point cfg u v w @ [0, 0, 0, 0.2 + q * 0.3, 0]) \<and>
                accretionDiskSize cfg * 2 \<le> distanceToCenter s' i \<and>
                distanceToCenter s' i < accretionDiskSize cfg * 3) \<and>
             (\<not> reached_horizon cfg s i \<longrightarrow>
                star_at s' i =
                  [positions s ! (i * 3) + vx, positions s ! (i * 3 + 1) + vy,
                   positions s ! (i * 3 + 2) + vz, vx, vy, vz,
                   star_size cfg (rnd k) (distanceToCenter s i), lifetimes s ! i + 1] \<and>
                lifetimes s' ! i = lifetimes s ! i + 1))"
proof -
  let ?k = "draws_before cfg s i"
  let ?s' = "animate_stars cfg rnd s"
  have k: "rand_ix (fold (update_star cfg rnd) [0..<i] s) = ?k"
    using fold_update_star_draws[OF assms(1), of i cfg rnd] assms(2) by simp
  have own: "star_at ?s' i = star_at (update_star cfg rnd i (s\<lparr>rand_ix := ?k\<rparr>)) i"
    using animate_stars_at_ix[OF assms(1,2), of cfg rnd] by (simp only: k)
  have total: "rand_ix ?s' = draws_before cfg s (count s)"
    by (rule animate_stars_draws[OF assms(1)])
  have test: "(reached_horizon cfg s i \<longleftrightarrow> distanceToCenter s i < size_bh cfg * 1.5) \<and>
      (\<forall>l. reached_horizon cfg (s\<lparr>lifetimes := l\<rparr>) i = reached_horizon cfg s i)"
    by (simp add: reached_horizon_def distanceToCenter_def)
  have respawn: ?thesis if h: "reached_horizon cfg s i"
  proof -
    have at: "star_at ?s' i =
        shell_point cfg (rnd ?k) (rnd (?k + 1)) (rnd (?k + 2)) @
        [0, 0, 0, 0.2 + rnd (?k + 3) * 0.3, 0]"
      by (rule animate_stars_respawn_at[OF assms(1,2) h])
    show ?thesis
      unfolding Let_def
      using test own total at animate_stars_respawn[OF assms h] h by blast
  qed
  have pull: ?thesis if h: "\<not> reached_horizon cfg s i"
  proof -
    note at = animate_stars_pull_at[OF assms(1,2) h, of rnd, unfolded Let_def]
    have "lifetimes ?s' ! i = lifetimes s ! i + 1"
      using at by (simp add: star_at_def)
    then show ?thesis
      unfolding Let_def
      using test own total at h by blast
  qed
  show ?thesis using respawn pull by blast
qed

theorem respawn_exactly_at_horizon_witness:
  "buffers_ok (starData default_props steady_draws 0) \<and>
   0 < count (starData default_props steady_draws 0) \<and>
   random_ok steady_draws \<and>
   0 < accretionDiskSize default_props \<and>
   \<not> reached_horizon default_props (starData default_props steady_draws 0) 0 \<and>
   lifetimes (animate_stars default_props steady_draws (starData default_props steady_draws 0)) ! 0 =
     lifetimes (starData default_props steady_draws 0) ! 0 + 1 \<and>
   buffers_ok (starData wide_props steady_draws 0) \<and>
   0 < count (starData wide_props steady_draws 0) \<and>
   0 < accretionDiskSize wide_props \<and>
   reached_horizon wide_props (starData wide_props steady_draws 0) 0 \<and>
   star_at (animate_stars wide_props steady_draws (starData wide_props steady_draws 0)) 0 =
     [- 20, 0, 0, 0, 0, 0, 35 / 100, 0] \<and>
   accretionDiskSize wide_props * 2 \<le>
     distanceToCenter (animate_stars wide_props steady_draws (starData wide_props steady_draws 0)) 0 \<and>
   distanceToCenter (animate_stars wide_props steady_draws (starData wide_props steady_draws 0)) 0
     < accretionDiskSize wide_props * 3"
proof -
  let ?d = "starData default_props steady_draws 0"
  let ?w = "starData wide_props steady_draws 0"
  have a: "0 < accretionDiskSize default_props" "0 < accretionDiskSize wide_props"
    by (simp_all add: default_props_def wide_props_def)
  have c: "0 < count ?d" "0 < count ?w"
    by (simp_all add: starData_count)
  note gd = respawn_exactly_at_horizon[OF starData_buffers_ok c(1) steady_draws_ok a(1),
      unfolded Let_def]
  note gw = respawn_exactly_at_horizon[OF starData_buffers_ok c(2) steady_draws_ok a(2),
      unfolded Let_def]
  have life: "lifetimes (animate_stars default_props steady_draws ?d) ! 0 = lifetimes ?d ! 0 + 1"
    using gd steady_default_far by blast
  have "star_at (animate_stars wide_props steady_draws ?w) 0 =
      shell_point wide_props (steady_draws (draws_before wide_props ?w 0))
        (steady_draws (draws_before wide_props ?w 0 + 1))
        (steady_draws (draws_before wide_props ?w 0 + 2)) @
      [0, 0, 0, 0.2 + steady_draws (draws_before wide_props ?w 0 + 3) * 0.3, 0]"
    using gw steady_wide_near by blast
  then have at: "star_at (animate_stars wide_props steady_draws ?w) 0 =
      [- 20, 0, 0, 0, 0, 0, 35 / 100, 0]"
    by (simp add: steady_draws_def shell_point_def wide_props_def Let_def)
  have "accretionDiskSize wide_props * 2 \<le>
      distanceToCenter (animate_stars wide_props steady_draws ?w) 0 \<and>
    distanceToCenter (animate_stars wide_props steady_draws ?w) 0 < accretionDiskSize wide_props * 3"
    using gw steady_wide_near by blast
  then show ?thesis
    using life at a c steady_default_far steady_wide_near steady_draws_ok
      starData_buffers_ok[of default_props steady_draws 0]
      starData_buffers_ok[of wide_props steady_draws 0]
    by blast
qed


text \<open>
  C3. In the branch that does not respawn, the force magnitude is
  \<open>gravitationalStrength * 0.5\<close> divided by the squared distance to the centre, the direction
  is the unit vector from the star towards the centre, and the first change made to the
  velocity adds \<open>direction * force * 0.1\<close> to each component; the orbital component,
  the damping and the position update follow in that order.
\<close>

theorem gravity_applied_first:
  assumes "buffers_ok s" "i < count s" "\<not> reached_horizon cfg s i" "0 < size_bh cfg"
  shows "update_star cfg rnd i s =
      age_star i (shrink_star cfg rnd (distanceToCenter s i) i (update_positions i
        (apply_damping i (add_orbital (dirX s i) (dirZ s i) (orbitalSpeed cfg s i) i
          (apply_gravity (dirX s i) (dirY s i) (dirZ s i) (forceMagnitude cfg s i) i s))))) \<and>
    forceMagnitude cfg s i = gravitationalStrength cfg * 0.5 / (distanceToCenter s i)\<^sup>2 \<and>
    dirX s i = (0 - positions s ! (i * 3)) / distanceToCenter s i \<and>
    dirY s i = (0 - positions s ! (i * 3 + 1)) / distanceToCenter s i \<and>
    dirZ s i = (0 - positions s ! (i * 3 + 2)) / distanceToCenter s i \<and>
    (dirX s i)\<^sup>2 + (dirY s i)\<^sup>2 + (dirZ s i)\<^sup>2 = 1 \<and>
    velocities (apply_gravity (dirX s i) (dirY s i) (dirZ s i) (forceMagnitude cfg s i) i s) ! (i * 3)
      = velocities s ! (i * 3) + dirX s i * forceMagnitude cfg s i * 0.1 \<and>
    velocities (apply_gravity (dirX s i) (dirY s i) (dirZ s i) (forceMagnitude cfg s i) i s) ! (i * 3 + 1)
      = velocities s ! (i * 3 + 1) + dirY s i * forceMagnitude cfg s i * 0.1 \<and>
    velocities (apply_gravity (dirX s i) (dirY s i) (dirZ s i) (forceMagnitude cfg s i) i s) ! (i * 3 + 2)
      = velocities s ! (i * 3 + 2) + dirZ s i * forceMagnitude cfg s i * 0.1"
proof -
  let ?d = "distanceToCenter s i"
  have d: "0 < ?d" using assms(3,4) by (simp add: reached_horizon_def)
  have unit: "(dirX s i)\<^sup>2 + (dirY s i)\<^sup>2 + (dirZ s i)\<^sup>2 = 1"
    using d by (rule direction_unit)
  have "update_star cfg rnd i s =
      age_star i (shrink_star cfg rnd (distanceToCenter s i) i (update_positions i
        (apply_damping i (add_orbital (dirX s i) (dirZ s i) (orbitalSpeed cfg s i) i
          (apply_gravity (dirX s i) (dirY s i) (dirZ s i) (forceMagnitude cfg s i) i s)))))"
    using assms(3) by (simp add: update_star_def pull_star_def accelerate_def Let_def)
  moreover have "forceMagnitude cfg s i = gravitationalStrength cfg * 0.5 / (distanceToCenter s i)\<^sup>2"
    by (simp add: forceMagnitude_def power2_eq_square)
  moreover have
    "velocities (apply_gravity (dirX s i) (dirY s i) (dirZ s i) (forceMagnitude cfg s i) i s) ! (i * 3)
      = velocities s ! (i * 3) + dirX s i * forceMagnitude cfg s i * 0.1"
    "velocities (apply_gravity (dirX s i) (dirY s i) (dirZ s i) (forceMagnitude cfg s i) i s) ! (i * 3 + 1)
      = velocities s ! (i * 3 + 1) + dirY s i * forceMagnitude cfg s i * 0.1"
    "velocities (apply_gravity (dirX s i) (dirY s i) (dirZ s i) (forceMagnitude cfg s i) i s) ! (i * 3 + 2)
      = velocities s ! (i * 3 + 2) + dirZ s i * forceMagnitude cfg s i * 0.1"
    using assms(1,2) by (simp_all add: apply_gravity_def buffers_ok_def Let_def)
  ultimately show ?thesis using unit by (simp add: dirX_def dirY_def dirZ_def)
qed

theorem gravity_applied_first_witness:
  "buffers_ok (starData default_props steady_draws 0) \<and>
   0 < count (starData default_props steady_draws 0) \<and>
   \<not> reached_horizon default_props (starData default_props steady_draws 0) 0 \<and>
   0 < size_bh default_props \<and>
   forceMagnitude default_props (starData default_props steady_draws 0) 0 = 1 / 1600 \<and>
   (dirX (starData default_props steady_draws 0) 0)\<^sup>2 +
   (dirY (starData default_props steady_draws 0) 0)\<^sup>2 +
   (dirZ (starData default_props steady_draws 0) 0)\<^sup>2 = 1"
proof -
  let ?s = "starData default_props steady_draws 0"
  have c: "0 < count ?s" by (simp add: starData_count)
  have z: "0 < size_bh default_props" by (simp add: default_props_def)
  have d: "distanceToCenter ?s 0 = 20"
    using steady_distance[of 0 default_props 0] by (simp add: default_props_def)
  note g = gravity_applied_first[OF starData_buffers_ok c steady_default_far z, of steady_draws]
  have "forceMagnitude default_props ?s 0 =
      gravitationalStrength default_props * 0.5 / (distanceToCenter ?s 0)\<^sup>2"
    using g by blast
  then have f: "forceMagnitude default_props ?s 0 = 1 / 1600"
    unfolding d by (simp add: default_props_def)
  have "(dirX ?s 0)\<^sup>2 + (dirY ?s 0)\<^sup>2 + (dirZ ?s 0)\<^sup>2 = 1"
    using g by blast
  then show ?thesis using f starData_buffers_ok c steady_default_far z by blast
qed

text \<open>
  C7. In the branch that does not respawn (with \<open>size > 0\<close> and a gravitational strength
  that is not negative) the update adds to the velocity, after the gravitational
  acceleration and before the damping, the orbital increment \<open>(- dirZ, 0, dirX)\<close> scaled by
  \<open>orbitalSpeed * 0.5\<close>, where \<open>orbitalSpeed\<close> is \<open>sqrt (force / distance) * 2\<close> for the
  same force magnitude; its dot product with the unit direction towards the centre is zero
  at every position, and the velocity that the update and the frame write is the old
  velocity plus both increments, damped.
\<close>

theorem orbital_increment_perpendicular:
  assumes "buffers_ok s" "i < count s" "\<not> reached_horizon cfg s i" "0 < size_bh cfg"
    "0 \<le> gravitationalStrength cfg"
  shows "(let after_gravity =
                apply_gravity (dirX s i) (dirY s i) (dirZ s i) (forceMagnitude cfg s i) i s;
              after_orbital =
                add_orbital (dirX s i) (dirZ s i) (orbitalSpeed cfg s i) i after_gravity;
              incX = velocities after_orbital ! (i * 3) - velocities after_gravity ! (i * 3);
              incY = velocities after_orbital ! (i * 3 + 1) - velocities after_gravity ! (i * 3 + 1);
              incZ = velocities after_orbital ! (i * 3 + 2) - velocities after_gravity ! (i * 3 + 2)
          in incX * dirX s i + incY * dirY s i + incZ * dirZ s i = 0 \<and>
             (dirX s i)\<^sup>2 + (dirY s i)\<^sup>2 + (dirZ s i)\<^sup>2 = 1 \<and>
             0 \<le> forceMagnitude cfg s i / distanceToCenter s i \<and>
             orbitalSpeed cfg s i = sqrt (forceMagnitude cfg s i / distanceToCenter s i) * 2 \<and>
             incX = - dirZ s i * orbitalSpeed cfg s i * 0.5 \<and>
             incY = 0 \<and>
             incZ = dirX s i * orbitalSpeed cfg s i * 0.5 \<and>
             accelerate cfg i s = apply_damping i after_orbital \<and>
             update_star cfg rnd i s =
               age_star i (shrink_star cfg rnd (distanceToCenter s i) i
                 (update_positions i (apply_damping i after_orbital))) \<and>
             velocities (update_star cfg rnd i s) ! (i * 3) =
               (velocities s ! (i * 3) + dirX s i * forceMagnitude cfg s i * 0.1 + incX) * 0.99 \<and>
             velocities (update_star cfg rnd i s) ! (i * 3 + 1) =
               (velocities s ! (i * 3 + 1) + dirY s i * forceMagnitude cfg s i * 0.1 + incY) * 0.99 \<and>
             velocities (update_star cfg rnd i s) ! (i * 3 + 2) =
               (velocities s ! (i * 3 + 2) + dirZ s i * forceMagnitude cfg s i * 0.1 + incZ) * 0.99 \<and>
             velocities (animate_stars cfg rnd s) ! (i * 3) =
               (velocities s ! (i * 3) + dirX s i * forceMagnitude cfg s i * 0.1 + incX) * 0.99 \<and>
             velocities (animate_stars cfg rnd s) ! (i * 3 + 1) =
               (velocities s ! (i * 3 + 1) + dirY s i * forceMagnitude cfg s i * 0.1 + incY) * 0.99 \<and>
             velocities (animate_stars cfg rnd s) ! (i * 3 + 2) =
               (velocities s ! (i * 3 + 2) + dirZ s i * forceMagnitude cfg s i * 0.1 + incZ) * 0.99)"
proof -
  let ?g = "apply_gravity (dirX s i) (dirY s i) (dirZ s i) (forceMagnitude cfg s i) i s"
  let ?o = "add_orbital (dirX s i) (dirZ s i) (orbitalSpeed cfg s i) i ?g"
  have d: "0 < distanceToCenter s i" using assms(3,4) by (simp add: reached_horizon_def)
  have arg: "0 \<le> forceMagnitude cfg s i / distanceToCenter s i"
    using d assms(5) by (simp add: forceMagnitude_def)
  have inc: "velocities ?o ! (i * 3) - velocities ?g ! (i * 3) = - dirZ s i * orbitalSpeed cfg s i * 0.5"
    "velocities ?o ! (i * 3 + 1) - velocities ?g ! (i * 3 + 1) = 0"
    "velocities ?o ! (i * 3 + 2) - velocities ?g ! (i * 3 + 2) = dirX s i * orbitalSpeed cfg s i * 0.5"
    using assms(1,2)
    by (simp_all add: add_orbital_def apply_gravity_def buffers_ok_def Let_def)
  have acc: "accelerate cfg i s = apply_damping i ?o"
    by (simp add: accelerate_def Let_def)
  have upd: "update_star cfg rnd i s =
      age_star i (shrink_star cfg rnd (distanceToCenter s i) i
        (update_positions i (apply_damping i ?o)))"
    using assms(3) by (simp add: update_star_def pull_star_def acc)
  have vu: "velocities (update_star cfg rnd i s) ! (i * 3) =
      (velocities s ! (i * 3) + dirX s i * forceMagnitude cfg s i * 0.1
        + - dirZ s i * orbitalSpeed cfg s i * 0.5) * 0.99"
    "velocities (update_star cfg rnd i s) ! (i * 3 + 1) =
      (velocities s ! (i * 3 + 1) + dirY s i * forceMagnitude cfg s i * 0.1 + 0) * 0.99"
    "velocities (update_star cfg rnd i s) ! (i * 3 + 2) =
      (velocities s ! (i * 3 + 2) + dirZ s i * forceMagnitude cfg s i * 0.1
        + dirX s i * orbitalSpeed cfg s i * 0.5) * 0.99"
    using assms(1,2,3)
    by (simp_all add: update_star_def pull_defs buffers_ok_def Let_def)
  note at = animate_stars_pull_at[OF assms(1,2,3), of rnd, unfolded Let_def]
  have va: "velocities (animate_stars cfg rnd s) ! (i * 3) =
      (velocities s ! (i * 3) + dirX s i * forceMagnitude cfg s i * 0.1
        + - dirZ s i * orbitalSpeed cfg s i * 0.5) * 0.99"
    "velocities (animate_stars cfg rnd s) ! (i * 3 + 1) =
      (velocities s ! (i * 3 + 1) + dirY s i * forceMagnitude cfg s i * 0.1 + 0) * 0.99"
    "velocities (animate_stars cfg rnd s) ! (i * 3 + 2) =
      (velocities s ! (i * 3 + 2) + dirZ s i * forceMagnitude cfg s i * 0.1
        + dirX s i * orbitalSpeed cfg s i * 0.5) * 0.99"
    using at by (simp_all add: star_at_def)
  have dot: "- dirZ s i * orbitalSpeed cfg s i * 0.5 * dirX s i + 0 * dirY s i
      + dirX s i * orbitalSpeed cfg s i * 0.5 * dirZ s i = 0"
    by simp
  have os: "orbitalSpeed cfg s i = sqrt (forceMagnitude cfg s i / distanceToCenter s i) * 2"
    by (simp add: orbitalSpeed_def)
  show ?thesis
    unfolding Let_def inc
    using dot direction_unit[OF d] arg os acc upd vu va by blast
qed

theorem orbital_increment_perpendicular_witness:
  "buffers_ok (starData default_props steady_draws 0) \<and>
   0 < count (starData default_props steady_draws 0) \<and>
   \<not> reached_horizon default_props (starData default_props steady_draws 0) 0 \<and>
   0 < size_bh default_props \<and>
   0 \<le> gravitationalStrength default_props \<and>
   (let s = starData default_props steady_draws 0;
        after_gravity = apply_gravity (dirX s 0) (dirY s 0) (dirZ s 0)
                          (forceMagnitude default_props s 0) 0 s;
        after_orbital = add_orbital (dirX s 0) (dirZ s 0) (orbitalSpeed default_props s 0) 0
                          after_gravity
    in (velocities after_orbital ! (0 * 3) - velocities after_gravity ! (0 * 3)) * dirX s 0 +
       (velocities after_orbital ! (0 * 3 + 1) - velocities after_gravity ! (0 * 3 + 1)) * dirY s 0 +
       (velocities after_orbital ! (0 * 3 + 2) - velocities after_gravity ! (0 * 3 + 2)) * dirZ s 0
       = 0 \<and>
       accelerate default_props 0 s = apply_damping 0 after_orbital \<and>
       velocities (animate_stars default_props steady_draws s) ! (0 * 3 + 1) =
         (velocities s ! (0 * 3 + 1) + dirY s 0 * forceMagnitude default_props s 0 * 0.1 +
           (velocities after_orbital ! (0 * 3 + 1) - velocities after_gravity ! (0 * 3 + 1))) * 0.99)"
proof -
  let ?s = "starData default_props steady_draws 0"
  have c: "0 < count ?s" by (simp add: starData_count)
  have z: "0 < size_bh default_props" "0 \<le> gravitationalStrength default_props"
    by (simp_all add: default_props_def)
  note g = orbital_increment_perpendicular[OF starData_buffers_ok c steady_default_far z,
      of steady_draws, unfolded Let_def]
  show ?thesis
    unfolding Let_def
    using g starData_buffers_ok[of default_props steady_draws 0] c steady_default_far z
    by blast
qed

text \<open>
  C8. In the branch that does not respawn the distance to the centre is at least the
  event-horizon radius \<open>size * 1.5\<close>, hence positive when \<open>size\<close> is: the divisors
  \<open>distance * distance\<close> and \<open>distance\<close> of the force computation are not zero, so no
  division by zero is reached, and the argument \<open>force / distance\<close> of the square root is
  not negative for a gravitational strength that is not negative.
\<close>

theorem pull_branch_divisors_nonzero:
  assumes "\<not> reached_horizon cfg s i" "0 < size_bh cfg"
  shows "update_star cfg rnd i s = pull_star cfg rnd i s \<and>
         size_bh cfg * 1.5 \<le> distanceToCenter s i \<and>
         0 < distanceToCenter s i \<and>
         distanceToCenter s i * distanceToCenter s i \<noteq> 0 \<and>
         (0 \<le> gravitationalStrength cfg \<longrightarrow>
            0 \<le> forceMagnitude cfg s i / distanceToCenter s i)"
proof -
  have d: "size_bh cfg * 1.5 \<le> distanceToCenter s i" "0 < distanceToCenter s i"
    using assms by (simp_all add: reached_horizon_def)
  then show ?thesis using assms(1) by (simp add: update_star_def forceMagnitude_def)
qed

theorem pull_branch_divisors_nonzero_witness:
  "\<not> reached_horizon default_props (starData default_props steady_draws 0) 0 \<and>
   0 < size_bh default_props \<and>
   0 \<le> gravitationalStrength default_props \<and>
   update_star default_props steady_draws 0 (starData default_props steady_draws 0) =
     pull_star default_props steady_draws 0 (starData default_props steady_draws 0) \<and>
   0 < distanceToCenter (starData default_props steady_draws 0) 0 \<and>
   distanceToCenter (starData default_props steady_draws 0) 0 *
     distanceToCenter (starData default_props steady_draws 0) 0 \<noteq> 0 \<and>
   0 \<le> forceMagnitude default_props (starData default_props steady_draws 0) 0 /
         distanceToCenter (starData default_props steady_draws 0) 0"
proof -
  have z: "0 < size_bh default_props" "0 \<le> gravitationalStrength default_props"
    by (simp_all add: default_props_def)
  show ?thesis
    using pull_branch_divisors_nonzero[OF steady_default_far z(1), of steady_draws]
      steady_default_far z
    by blast
qed

text \<open>
  C4. A star held at a fixed position outside the event horizon, and updated any number of
  times by the velocity statements of the branch, keeps a velocity magnitude that is at
  most the larger of its initial magnitude and a bound fixed by the configuration: with
  the damping factor \<open>0.99\<close> the magnitude cannot grow without limit. (For
  \<open>size > 0\<close> and \<open>gravitationalStrength \<ge> 0\<close>.)
\<close>

theorem held_star_speed_bounded:
  assumes "buffers_ok s" "i < count s" "\<not> reached_horizon cfg s i"
    "0 < size_bh cfg" "0 \<le> gravitationalStrength cfg"
  shows "positions ((accelerate cfg i ^^ n) s) = positions s \<and>
         velocity_magnitude ((accelerate cfg i ^^ n) s) i \<le>
           max (velocity_magnitude s i) (held_speed_bound cfg)"
proof -
  have "buffers_ok ((accelerate cfg i ^^ n) s) \<and>
      count ((accelerate cfg i ^^ n) s) = count s \<and>
      positions ((accelerate cfg i ^^ n) s) = positions s \<and>
      velocity_magnitude ((accelerate cfg i ^^ n) s) i \<le>
        max (velocity_magnitude s i) (held_speed_bound cfg)"
  proof (induction n)
    case 0
    then show ?case using assms(1) by simp
  next
    case (Suc n)
    let ?t = "(accelerate cfg i ^^ n) s"
    let ?m = "max (velocity_magnitude s i) (held_speed_bound cfg)"
    have ok: "buffers_ok ?t" and cnt: "count ?t = count s" and pos: "positions ?t = positions s"
      and v: "velocity_magnitude ?t i \<le> ?m"
      using Suc.IH by simp_all
    have far: "\<not> reached_horizon cfg ?t i"
      using assms(3) pos by (simp add: reached_horizon_def distanceToCenter_def)
    have "velocity_magnitude (accelerate cfg i ?t) i \<le>
        0.99 * (velocity_magnitude ?t i + held_speed_bound cfg / 99)"
      using accelerate_speed[OF ok _ far assms(4,5)] assms(2) cnt by simp
    also have "\<dots> \<le> 0.99 * (?m + ?m / 99)"
      using v by (simp add: divide_right_mono)
    also have "\<dots> = ?m" by simp
    finally have "velocity_magnitude ((accelerate cfg i ^^ Suc n) s) i \<le> ?m" by simp
    moreover have "buffers_ok (accelerate cfg i ?t)"
      using ok by (simp add: buffers_ok_def accelerate_frame)
    ultimately show ?case using cnt pos by (simp add: accelerate_frame)
  qed
  then show ?thesis by simp
qed

theorem held_star_speed_bounded_witness:
  "buffers_ok (starData default_props steady_draws 0) \<and>
   0 < count (starData default_props steady_draws 0) \<and>
   \<not> reached_horizon default_props (starData default_props steady_draws 0) 0 \<and>
   0 < size_bh default_props \<and>
   0 \<le> gravitationalStrength default_props \<and>
   velocity_magnitude ((accelerate default_props 0 ^^ 10000) (starData default_props steady_draws 0)) 0
     \<le> held_speed_bound default_props"
proof -
  let ?s = "starData default_props steady_draws 0"
  have c: "0 < count ?s" by (simp add: starData_count)
  have z: "0 < size_bh default_props" "0 \<le> gravitationalStrength default_props"
    by (simp_all add: default_props_def)
  have v: "velocity_magnitude ?s 0 = 0"
    using steady_star_at[of 0 default_props 0]
    by (simp add: star_at_def velocity_magnitude_def)
  have b: "0 \<le> held_speed_bound default_props"
    by (simp add: held_speed_bound_def default_props_def Let_def)
  have "velocity_magnitude ((accelerate default_props 0 ^^ 10000) ?s) 0 \<le>
      max (velocity_magnitude ?s 0) (held_speed_bound default_props)"
    using held_star_speed_bounded[OF starData_buffers_ok c steady_default_far z, of 10000]
    by blast
  then have "velocity_magnitude ((accelerate default_props 0 ^^ 10000) ?s) 0 \<le>
      held_speed_bound default_props"
    using v b by simp
  then show ?thesis using starData_buffers_ok c steady_default_far z by blast
qed

text \<open>
  C5. The shell sampler, at the initial spawn and at a respawn alike: with the draws
  \<open>u\<close> for the polar angle and \<open>v\<close> for the azimuth, both in \<open>[0, 1)\<close>, the polar angle
  \<open>phi\<close> lies in \<open>[0, pi]\<close> and has \<open>cos phi = 2 * u - 1\<close>, the azimuth is \<open>2 * pi * v\<close>, and
  the position written is
  \<open>radius * (sin phi * cos theta, sin phi * sin theta, cos phi)\<close>.
\<close>

theorem shell_sampler_uniform_in_cosine:
  assumes "buffers_ok s" "i < count s" "random_ok rnd"
  shows "(let k = rand_ix s;
              theta = rnd k * pi * 2;
              phi = arccos (rnd (k + 1) * 2 - 1);
              radius = accretionDiskSize cfg * 2 + rnd (k + 2) * accretionDiskSize cfg
          in cos phi = 2 * rnd (k + 1) - 1 \<and> 0 \<le> phi \<and> phi \<le> pi \<and>
             theta = 2 * pi * rnd k \<and>
             positions (respawn_star cfg rnd i s) ! (i * 3) = radius * (sin phi * cos theta) \<and>
             positions (respawn_star cfg rnd i s) ! (i * 3 + 1) = radius * (sin phi * sin theta) \<and>
             positions (respawn_star cfg rnd i s) ! (i * 3 + 2) = radius * cos phi \<and>
             positions (spawn_star cfg rnd i s) ! (i * 3) = radius * (sin phi * cos theta) \<and>
             positions (spawn_star cfg rnd i s) ! (i * 3 + 1) = radius * (sin phi * sin theta) \<and>
             positions (spawn_star cfg rnd i s) ! (i * 3 + 2) = radius * cos phi)"
proof -
  have r: "- 1 \<le> rnd (rand_ix s + 1) * 2 - 1" "rnd (rand_ix s + 1) * 2 - 1 \<le> 1"
    using assms(3) by (simp_all add: random_ok_def less_imp_le)
  have "cos (arccos (rnd (rand_ix s + 1) * 2 - 1)) = 2 * rnd (rand_ix s + 1) - 1"
    using r by simp
  moreover have "0 \<le> arccos (rnd (rand_ix s + 1) * 2 - 1)"
    "arccos (rnd (rand_ix s + 1) * 2 - 1) \<le> pi"
    using r by (simp_all add: arccos_lbound arccos_ubound)
  ultimately show ?thesis using assms(1,2)
    by (simp add: respawn_star_def spawn_star_def buffers_ok_def Let_def)
qed

theorem shell_sampler_uniform_in_cosine_witness:
  "buffers_ok (starData default_props steady_draws 0) \<and>
   0 < count (starData default_props steady_draws 0) \<and>
   random_ok steady_draws \<and>
   (let s = starData default_props steady_draws 0;
        k = rand_ix s;
        theta = steady_draws k * pi * 2;
        phi = arccos (steady_draws (k + 1) * 2 - 1);
        radius = accretionDiskSize default_props * 2
                   + steady_draws (k + 2) * accretionDiskSize default_props
    in cos phi = 2 * steady_draws (k + 1) - 1 \<and>
       positions (respawn_star default_props steady_draws 0 s) ! (0 * 3)
         = radius * (sin phi * cos theta) \<and>
       positions (respawn_star default_props steady_draws 0 s) ! (0 * 3 + 1)
         = radius * (sin phi * sin theta) \<and>
       positions (respawn_star default_props steady_draws 0 s) ! (0 * 3 + 2)
         = radius * cos phi)"
proof -
  let ?s = "starData default_props steady_draws 0"
  have c: "0 < count ?s" by (simp add: starData_count)
  note g = shell_sampler_uniform_in_cosine[OF starData_buffers_ok c steady_draws_ok,
      where cfg = default_props]
  show ?thesis
    using g starData_buffers_ok[of default_props steady_draws 0] c steady_draws_ok
    unfolding Let_def by blast
qed

text \<open>
  C10. One frame of the accretion-disk animation rotates every particle about the central
  axis: in exact arithmetic, for a particle off the axis, the \<open>y\<close> coordinate and the
  distance \<open>sqrt (x * x + z * z)\<close> from the axis are unchanged, and the polar angle of
  \<open>(x, z)\<close> advances by \<open>0.5 / (radius * 0.1) * 0.01\<close>.
\<close>

theorem disk_update_is_rotation:
  assumes "length (disk_positions s) = disk_count s * 3" "i < disk_count s"
    "disk_radius (disk_positions s) i \<noteq> 0"
  shows "(let p = disk_positions s;
              p' = disk_positions (animate_disk s);
              x = p ! (i * 3); z = p ! (i * 3 + 2);
              radius = disk_radius p i;
              angle = disk_angle p i;
              turn = 0.5 / (radius * 0.1) * 0.01
          in p' ! (i * 3 + 1) = p ! (i * 3 + 1) \<and>
             disk_radius p' i = radius \<and>
             x = radius * cos angle \<and> z = radius * sin angle \<and>
             p' ! (i * 3) = radius * cos (angle + turn) \<and>
             p' ! (i * 3 + 2) = radius * sin (angle + turn) \<and>
             p' ! (i * 3) = x * cos turn - z * sin turn \<and>
             p' ! (i * 3 + 2) = x * sin turn + z * cos turn \<and>
             (\<exists>n::int. disk_angle p' i = angle + turn + 2 * pi * n))"
proof -
  let ?p = "disk_positions s"
  let ?p' = "disk_positions (animate_disk s)"
  let ?x = "?p ! (i * 3)"
  let ?z = "?p ! (i * 3 + 2)"
  let ?r = "disk_radius ?p i"
  let ?a = "disk_angle ?p i"
  let ?t = "0.5 / (?r * 0.1) * 0.01"
  have len: "i * 3 + 2 < length ?p" using assms(1,2) by simp
  have at: "disk_at ?p' i = [cos (?a + ?t) * ?r, ?p ! (i * 3 + 1), sin (?a + ?t) * ?r]"
    using animate_disk_at[OF assms(1,2)] len
    by (simp add: disk_at_def orbit_particle_def Let_def)
  then have x': "?p' ! (i * 3) = ?r * cos (?a + ?t)"
    and y': "?p' ! (i * 3 + 1) = ?p ! (i * 3 + 1)"
    and z': "?p' ! (i * 3 + 2) = ?r * sin (?a + ?t)"
    by (simp_all add: disk_at_def mult.commute)
  have rpos: "0 < ?r"
    using assms(3) real_sqrt_ge_zero[of "?x * ?x + ?z * ?z"]
    by (simp add: disk_radius_def Let_def less_le)
  have nz: "?x \<noteq> 0 \<or> ?z \<noteq> 0" using assms(3) by (auto simp: disk_radius_def Let_def)
  have x: "?x = ?r * cos ?a" and z: "?z = ?r * sin ?a"
    using atan2_polar[OF nz] by (simp_all add: disk_radius_def disk_angle_def Let_def)
  have r': "disk_radius ?p' i = ?r"
  proof -
    have "(?r * cos (?a + ?t)) * (?r * cos (?a + ?t)) + (?r * sin (?a + ?t)) * (?r * sin (?a + ?t))
        = ?r\<^sup>2 * ((cos (?a + ?t))\<^sup>2 + (sin (?a + ?t))\<^sup>2)" by algebra
    also have "\<dots> = ?r\<^sup>2" by simp
    finally have "disk_radius ?p' i = sqrt (?r\<^sup>2)"
      unfolding disk_radius_def Let_def x' z' by simp
    then show ?thesis using rpos by simp
  qed
  have rot: "?r * cos (?a + ?t) = ?x * cos ?t - ?z * sin ?t"
    "?r * sin (?a + ?t) = ?x * sin ?t + ?z * cos ?t"
    by (subst x, subst z, simp add: cos_add sin_add algebra_simps)+
  have nz': "?p' ! (i * 3) \<noteq> 0 \<or> ?p' ! (i * 3 + 2) \<noteq> 0"
    using r' assms(3) by (auto simp: disk_radius_def Let_def)
  have "?r * cos (disk_angle ?p' i) = ?r * cos (?a + ?t)"
    "?r * sin (disk_angle ?p' i) = ?r * sin (?a + ?t)"
    using atan2_polar[OF nz'] r' x' z' by (simp_all add: disk_radius_def disk_angle_def Let_def)
  then have "sin (disk_angle ?p' i) = sin (?a + ?t) \<and> cos (disk_angle ?p' i) = cos (?a + ?t)"
    using rpos by simp
  then have ang: "\<exists>n::int. disk_angle ?p' i = ?a + ?t + 2 * pi * n"
    by (simp add: sin_cos_eq_iff)
  show ?thesis
    unfolding Let_def using x' y' z' r' x z rot ang by simp
qed

theorem disk_update_is_rotation_witness:
  "length (disk_positions (particleData default_props steady_draws 0)) =
     disk_count (particleData default_props steady_draws 0) * 3 \<and>
   0 < disk_count (particleData default_props steady_draws 0) \<and>
   disk_radius (disk_positions (particleData default_props steady_draws 0)) 0 \<noteq> 0 \<and>
   disk_radius (disk_positions (animate_disk (particleData default_props steady_draws 0))) 0 = 17 / 2 \<and>
   disk_positions (animate_disk (particleData default_props steady_draws 0)) ! (0 * 3 + 1) =
     disk_positions (particleData default_props steady_draws 0) ! (0 * 3 + 1)"
proof -
  let ?s = "particleData default_props steady_draws 0"
  have l: "length (disk_positions ?s) = disk_count ?s * 3" by (simp add: particleData_frame)
  have c: "0 < disk_count ?s" by (simp add: particleData_frame)
  have r: "disk_radius (disk_positions ?s) 0 \<noteq> 0" by (simp add: steady_disk_radius)
  note g = disk_update_is_rotation[OF l c r]
  have "disk_radius (disk_positions (animate_disk ?s)) 0 = disk_radius (disk_positions ?s) 0"
    using g unfolding Let_def by blast
  moreover have "disk_positions (animate_disk ?s) ! (0 * 3 + 1) = disk_positions ?s ! (0 * 3 + 1)"
    using g unfolding Let_def by blast
  ultimately show ?thesis using l c r by (simp add: steady_disk_radius)
qed

text \<open>
  C6 fails as stated, because the factor \<open>0.2 + Math.random() * 0.1\<close> is drawn anew in
  every frame: with the default configuration the first star is at distance \<open>20\<close> in the
  first frame and gets size \<open>1 / 6\<close> (draw \<open>0\<close>); in the second frame it is nearer to the
  centre and gets a larger size (draw \<open>0.9\<close>).
\<close>

theorem star_size_grows_while_approaching:
  "distanceToCenter (animate_stars default_props flicker_draws
       (starData default_props flicker_draws 0)) 0
     < distanceToCenter (starData default_props flicker_draws 0) 0 \<and>
   sizes (animate_stars default_props flicker_draws (starData default_props flicker_draws 0)) ! 0
     = star_size default_props 0 (distanceToCenter (starData default_props flicker_draws 0) 0) \<and>
   sizes (animate_stars default_props flicker_draws
       (animate_stars default_props flicker_draws (starData default_props flicker_draws 0))) ! 0
     = star_size default_props (9 / 10)
         (distanceToCenter (animate_stars default_props flicker_draws
            (starData default_props flicker_draws 0)) 0) \<and>
   sizes (animate_stars default_props flicker_draws (starData default_props flicker_draws 0)) ! 0
     < sizes (animate_stars default_props flicker_draws
         (animate_stars default_props flicker_draws (starData default_props flicker_draws 0))) ! 0"
proof -
  let ?s0 = "starData default_props flicker_draws 0"
  let ?s1 = "animate_stars default_props flicker_draws ?s0"
  let ?s2 = "animate_stars default_props flicker_draws ?s1"
  let ?d1 = "sqrt ((- 20 + 99 / 1600000) * (- 20 + 99 / 1600000) + 0 * 0 +
      (99 / 100 * sqrt (1 / 32000)) * (99 / 100 * sqrt (1 / 32000)))"
  have d0: "distanceToCenter ?s0 0 = 20"
    unfolding view_distance[OF flicker_star_at] by (simp add: sqrt_400)
  have d1: "distanceToCenter ?s1 0 = ?d1"
    by (rule view_distance[OF flicker_after_frame])
  have b: "19 \<le> ?d1" "?d1 < 20" by (rule flicker_second_distance)+
  have size1: "sizes ?s1 ! 0 = 1 / 6"
    using flicker_after_frame by (simp add: star_at_def)
  have size1': "star_size default_props 0 20 = 1 / 6"
    by (simp add: star_size_def default_props_def)
  have ok1: "buffers_ok ?s1" by (rule buffers_ok_animate_stars[OF starData_buffers_ok])
  have c0: "0 < count ?s0" by (simp add: starData_count)
  have c1: "0 < count ?s1"
    using animate_stars_frame[of default_props flicker_draws ?s0] by (simp add: starData_count)
  have far1: "\<not> ?d1 < size_bh default_props * 1.5"
    using b(1) by (simp add: default_props_def)
  have "3000 < rand_ix ?s1"
    using animate_stars_rand_ix[OF c0, of default_props flicker_draws]
    by (simp add: starData_rand_ix)
  then have draw: "flicker_draws (rand_ix ?s1) = 9 / 10"
    by (simp add: flicker_draws_def)
  have "star_at ?s2 0 ! 6 = star_size default_props
      (flicker_draws (rand_ix (fold (update_star default_props flicker_draws) [0..<0] ?s1))) ?d1"
    unfolding pull_from_view[OF ok1 c1 flicker_after_frame refl far1 refl refl, of flicker_draws]
    by simp
  then have size2: "sizes ?s2 ! 0 = star_size default_props (9 / 10) ?d1"
    using draw by (simp add: star_at_def)
  have "1 / 6 < (0.2 + 9 / 10 * 0.1) * (19 / (8 * 3) :: real)" by simp
  also have "\<dots> \<le> (0.2 + 9 / 10 * 0.1) * (?d1 / (8 * 3))"
    using b(1) by (intro mult_left_mono divide_right_mono) simp_all
  also have "\<dots> \<le> (0.2 + 9 / 10 * 0.1) * max 0.1 (?d1 / (8 * 3))"
    by (intro mult_left_mono) simp_all
  also have "\<dots> = star_size default_props (9 / 10) ?d1"
    by (simp add: star_size_def default_props_def)
  finally have grow: "1 / 6 < star_size default_props (9 / 10) ?d1" .
  show ?thesis
    unfolding d0 d1 size1 size2 size1' using b(2) grow by simp
qed

text \<open>
  C6, as amended. The size written in the branch that does not respawn is
  \<open>(0.2 + u * 0.1) * max 0.1 (distance / (accretionDiskSize * 3))\<close> for the draw \<open>u\<close> of that
  frame. For one and the same draw it does not grow when the distance shrinks, it is
  proportional to \<open>distance / (accretionDiskSize * 3)\<close> where that ratio is at least \<open>0.1\<close>,
  and it is never below \<open>0.1\<close> times the factor \<open>0.2 + u * 0.1\<close>.
\<close>

theorem star_size_monotone_for_one_draw:
  assumes "buffers_ok s" "i < count s" "\<not> reached_horizon cfg s i"
    "0 < accretionDiskSize cfg" "0 \<le> u" "d1 \<le> d2"
  shows "sizes (update_star cfg rnd i s) ! i =
           star_size cfg (rnd (rand_ix s)) (distanceToCenter s i) \<and>
         star_size cfg u d1 \<le> star_size cfg u d2 \<and>
         star_size cfg u d1 = (0.2 + u * 0.1) * max 0.1 (d1 / (accretionDiskSize cfg * 3)) \<and>
         0.1 * (0.2 + u * 0.1) \<le> star_size cfg u d1 \<and>
         (0.1 \<le> d1 / (accretionDiskSize cfg * 3) \<longrightarrow>
            star_size cfg u d1 = (0.2 + u * 0.1) * (d1 / (accretionDiskSize cfg * 3)))"
proof -
  have "sizes (update_star cfg rnd i s) ! i = star_size cfg (rnd (rand_ix s)) (distanceToCenter s i)"
    using assms(1-3) by (simp add: update_star_def pull_defs buffers_ok_def Let_def)
  moreover have "d1 / (accretionDiskSize cfg * 3) \<le> d2 / (accretionDiskSize cfg * 3)"
    using assms(4,6) by (simp add: divide_right_mono)
  then have "max 0.1 (d1 / (accretionDiskSize cfg * 3)) \<le> max 0.1 (d2 / (accretionDiskSize cfg * 3))"
    by (simp add: max.coboundedI2)
  then have "star_size cfg u d1 \<le> star_size cfg u d2"
    unfolding star_size_def Let_def using assms(5) by (intro mult_left_mono) simp_all
  moreover have "0.1 * (0.2 + u * 0.1) \<le> star_size cfg u d1"
  proof -
    have "(0.2 + u * 0.1) * 0.1 \<le> (0.2 + u * 0.1) * max 0.1 (d1 / (accretionDiskSize cfg * 3))"
      using assms(5) by (intro mult_left_mono) simp_all
    then show ?thesis by (simp add: star_size_def Let_def mult.commute)
  qed
  ultimately show ?thesis by (simp add: star_size_def Let_def max_def)
qed

theorem star_size_monotone_for_one_draw_witness:
  "buffers_ok (starData default_props steady_draws 0) \<and>
   0 < count (starData default_props steady_draws 0) \<and>
   \<not> reached_horizon default_props (starData default_props steady_draws 0) 0 \<and>
   0 < accretionDiskSize default_props \<and> (0::real) \<le> 1 / 2 \<and> (12::real) \<le> 18 \<and>
   sizes (update_star default_props steady_draws 0 (starData default_props steady_draws 0)) ! 0 =
     star_size default_props (steady_draws (rand_ix (starData default_props steady_draws 0)))
       (distanceToCenter (starData default_props steady_draws 0) 0) \<and>
   star_size default_props (1 / 2) 12 \<le> star_size default_props (1 / 2) 18 \<and>
   star_size default_props (1 / 2) 12 = 1 / 8"
proof -
  let ?s = "starData default_props steady_draws 0"
  have c: "0 < count ?s" by (simp add: starData_count)
  have a: "0 < accretionDiskSize default_props" by (simp add: default_props_def)
  have u: "(0::real) \<le> 1 / 2" and d: "(12::real) \<le> 18" by simp_all
  note g = star_size_monotone_for_one_draw[OF starData_buffers_ok c steady_default_far a u d,
      of steady_draws]
  have "star_size default_props (1 / 2) 12 = 1 / 8"
    by (simp add: star_size_def default_props_def)
  then show ?thesis
    using g starData_buffers_ok[of default_props steady_draws 0] c steady_default_far a
    by simp
qed

end
